theory Spec2Isabelle
  imports Complex_Main "HOL-Library.List_Lexorder"
begin

section \<open>JavaScript values\<close>

text \<open>
  A JavaScript string is a sequence of UTF-16 code units; a code unit is a natural number.
  ASCII literals of the source are embedded with \<open>js\<close>. Property names of records are
  only ever compared for equality with ASCII literals, so they stay Isabelle strings.

  A JavaScript number is an IEEE double. The finite doubles are idealised as exact
  rationals (no rounding); the three non-finite doubles are separate constructors, so that
  every \<open>Number.isFinite\<close> test of the source is a case distinction of the model.
\<close>

type_synonym jsstring = "nat list"

definition js :: "string \<Rightarrow> jsstring" where
  "js s = map of_char s"

datatype jsnum = Fin rat | PosInf | NegInf | NaN

text \<open>
  The values a property of a parsed JSON record holds (scalars; an absent property, which
  reads as \<open>undefined\<close>, is \<open>None\<close> in the record's map).
\<close>

datatype jsval = JNull | JBool bool | JNum jsnum | JStr jsstring

type_synonym jsobject = "string \<rightharpoonup> jsval"

text \<open>Truthiness of a property read: what \<open>x || y\<close>, \<open>!x\<close> and \<open>Boolean(x)\<close> test.\<close>

fun truthy :: "jsval option \<Rightarrow> bool" where
  "truthy None = False"
| "truthy (Some JNull) = False"
| "truthy (Some (JBool b)) = b"
| "truthy (Some (JNum (Fin x))) = (x \<noteq> 0)"
| "truthy (Some (JNum NaN)) = False"
| "truthy (Some (JNum _)) = True"
| "truthy (Some (JStr s)) = (s \<noteq> [])"

subsection \<open>String to number: \<open>Number(string)\<close>\<close>

text \<open>
  White space and line terminators stripped by \<open>String.prototype.trim\<close> and by the
  string-to-number conversion: TAB, LF, VT, FF, CR, SP, NBSP, U+1680, U+2000..U+200A, U+2028,
  U+2029, U+202F, U+205F, U+3000, U+FEFF.
\<close>

definition isWhiteSpace :: "nat \<Rightarrow> bool" where
  "isWhiteSpace c =
     (c = 9 \<or> c = 10 \<or> c = 11 \<or> c = 12 \<or> c = 13 \<or> c = 32 \<or> c = 160 \<or> c = 5760
      \<or> (8192 \<le> c \<and> c \<le> 8202) \<or> c = 8232 \<or> c = 8233 \<or> c = 8239 \<or> c = 8287
      \<or> c = 12288 \<or> c = 65279)"

definition trim :: "jsstring \<Rightarrow> jsstring" where
  "trim s = rev (dropWhile isWhiteSpace (rev (dropWhile isWhiteSpace s)))"

definition isDigit :: "nat \<Rightarrow> bool" where
  "isDigit c = (48 \<le> c \<and> c \<le> 57)"

text \<open>Value of a digit in a radix up to 16 (\<open>0-9\<close>, \<open>a-f\<close>, \<open>A-F\<close>).\<close>

definition digitValue :: "nat \<Rightarrow> nat \<Rightarrow> nat option" where
  "digitValue radix c =
     (let v = (if 48 \<le> c \<and> c \<le> 57 then Some (c - 48)
               else if 97 \<le> c \<and> c \<le> 102 then Some (c - 87)
               else if 65 \<le> c \<and> c \<le> 70 then Some (c - 55)
               else None)
      in case v of None \<Rightarrow> None | Some d \<Rightarrow> if d < radix then Some d else None)"

fun radixDigits :: "nat \<Rightarrow> nat \<Rightarrow> jsstring \<Rightarrow> nat option" where
  "radixDigits radix acc [] = Some acc"
| "radixDigits radix acc (c # cs) =
     (case digitValue radix c of
        None \<Rightarrow> None
      | Some d \<Rightarrow> radixDigits radix (radix * acc + d) cs)"

definition decimalDigits :: "jsstring \<Rightarrow> nat" where
  "decimalDigits ds = foldl (\<lambda>acc c. 10 * acc + (c - 48)) 0 ds"

text \<open>
  A finite mathematical value becomes a double; magnitudes of at least
  \<open>2^1024 - 2^970\<close> round to an infinity.
\<close>

definition roundFinite :: "rat \<Rightarrow> jsnum" where
  "roundFinite x =
     (if \<bar>x\<bar> < 2 ^ 1024 - 2 ^ 970 then Fin x else if 0 < x then PosInf else NegInf)"

fun negate :: "jsnum \<Rightarrow> jsnum" where
  "negate (Fin x) = Fin (- x)"
| "negate PosInf = NegInf"
| "negate NegInf = PosInf"
| "negate NaN = NaN"

text \<open>\<open>0x\<close>, \<open>0o\<close> and \<open>0b\<close> literals (either case of the letter), unsigned.\<close>

definition nonDecimalIntegerLiteral :: "jsstring \<Rightarrow> nat option" where
  "nonDecimalIntegerLiteral s =
     (case s of
        a # b # c # cs \<Rightarrow>
          if a = 48 \<and> (b = 120 \<or> b = 88) then radixDigits 16 0 (c # cs)
          else if a = 48 \<and> (b = 111 \<or> b = 79) then radixDigits 8 0 (c # cs)
          else if a = 48 \<and> (b = 98 \<or> b = 66) then radixDigits 2 0 (c # cs)
          else None
      | _ \<Rightarrow> None)"

text \<open>The exponent part: nothing, or \<open>e\<close>/\<open>E\<close>, an optional sign and at least one digit.\<close>

definition exponentPart :: "jsstring \<Rightarrow> int option" where
  "exponentPart r =
     (case r of
        [] \<Rightarrow> Some 0
      | c # t \<Rightarrow>
          if c = 101 \<or> c = 69 then
            (let neg = (t \<noteq> [] \<and> hd t = 45);
                 d = (if t \<noteq> [] \<and> (hd t = 45 \<or> hd t = 43) then tl t else t)
             in if d \<noteq> [] \<and> list_all isDigit d
                then Some (if neg then - int (decimalDigits d) else int (decimalDigits d))
                else None)
          else None)"

definition scaleByPowerOfTen :: "rat \<Rightarrow> int \<Rightarrow> rat" where
  "scaleByPowerOfTen m e = (if 0 \<le> e then m * 10 ^ nat e else m / 10 ^ nat (- e))"

text \<open>
  An unsigned decimal literal: \<open>Infinity\<close>, or digits with an optional fraction and
  exponent, where the integer part or the fraction has a digit.
\<close>

definition strUnsignedDecimalLiteral :: "jsstring \<Rightarrow> jsnum" where
  "strUnsignedDecimalLiteral s =
     (if s = js ''Infinity'' then PosInf
      else
        let ip = takeWhile isDigit s;
            r1 = dropWhile isDigit s;
            dot = (r1 \<noteq> [] \<and> hd r1 = 46);
            fp = (if dot then takeWhile isDigit (tl r1) else []);
            r2 = (if dot then dropWhile isDigit (tl r1) else r1)
        in if ip = [] \<and> fp = [] then NaN
           else case exponentPart r2 of
                  None \<Rightarrow> NaN
                | Some e \<Rightarrow>
                    roundFinite
                      (scaleByPowerOfTen
                         (of_nat (decimalDigits ip)
                            + of_nat (decimalDigits fp) / 10 ^ length fp) e))"

text \<open>\<open>Number(s)\<close> for a string \<open>s\<close>: the empty or all-blank string is 0.\<close>

definition toNumber :: "jsstring \<Rightarrow> jsnum" where
  "toNumber s =
     (let t = trim s
      in if t = [] then Fin 0
         else case nonDecimalIntegerLiteral t of
                Some n \<Rightarrow> roundFinite (of_nat n)
              | None \<Rightarrow>
                  if hd t = 45 then negate (strUnsignedDecimalLiteral (tl t))
                  else if hd t = 43 then strUnsignedDecimalLiteral (tl t)
                  else strUnsignedDecimalLiteral t)"

section \<open>Numeric and field extraction (server)\<close>

text \<open>
  \<open>parseNumber(value)\<close>: a finite native number is returned as it is; a string that is
  not blank is converted with \<open>Number\<close> and kept when finite; everything else is
  \<open>null\<close>.
\<close>

fun parseNumber :: "jsval option \<Rightarrow> rat option" where
  "parseNumber (Some (JNum (Fin x))) = Some x"
| "parseNumber (Some (JStr s)) =
     (if trim s \<noteq> [] then (case toNumber s of Fin x \<Rightarrow> Some x | _ \<Rightarrow> None) else None)"
| "parseNumber _ = None"

text \<open>
  \<open>getNumericField(entry, keys)\<close>: the first key, in the order given, that the record
  owns and whose value parses; the result pairs the value with the key.
\<close>

fun getNumericField :: "jsobject \<Rightarrow> string list \<Rightarrow> (rat \<times> string) option" where
  "getNumericField entry [] = None"
| "getNumericField entry (key # keys) =
     (case entry key of
        None \<Rightarrow> getNumericField entry keys
      | Some v \<Rightarrow>
          (case parseNumber (Some v) of
             Some x \<Rightarrow> Some (x, key)
           | None \<Rightarrow> getNumericField entry keys))"

text \<open>
  \<open>inferBurnedCalories(entry)\<close>: an explicit aggregate burned field of the export, by
  alias priority; the source label is \<open>entry:\<close> followed by the matched key.
\<close>

definition BURNED_FIELD_KEYS :: "string list" where
  "BURNED_FIELD_KEYS =
     [''Energy Burned (kcal)'', ''Calories Burned (kcal)'', ''Expenditure (kcal)'',
      ''Total Burned (kcal)'', ''Burned (kcal)'', ''TDEE (kcal)'',
      ''Total Energy Expenditure (kcal)'']"

definition inferBurnedCalories :: "jsobject \<Rightarrow> (rat \<times> string) option" where
  "inferBurnedCalories entry =
     (case getNumericField entry BURNED_FIELD_KEYS of
        Some (v, key) \<Rightarrow> Some (v, ''entry:'' @ key)
      | None \<Rightarrow> None)"

section \<open>Component extraction from the export (server)\<close>

definition BURN_COMPONENT_KEYS :: "(string \<times> string list) list" where
  "BURN_COMPONENT_KEYS =
     [(''bmr'', [''BMR (kcal)'', ''Basal Metabolic Rate (kcal)'',
                 ''Resting Metabolic Rate (kcal)'', ''RMR (kcal)'']),
      (''tef'', [''TEF (kcal)'', ''Thermic Effect of Food (kcal)'',
                 ''Thermal Effect of Food (kcal)'']),
      (''exercise'', [''Exercise (kcal)'', ''Exercises (kcal)'', ''Active Exercise (kcal)'',
                      ''Workout (kcal)'']),
      (''trackerActivity'', [''Tracker Activity (kcal)'', ''Tracker Calories (kcal)'',
                             ''Daily Activity (kcal)'', ''Activity (kcal)''])]"

definition OPTIONAL_BURN_COMPONENT_KEYS :: "(string \<times> string list) list" where
  "OPTIONAL_BURN_COMPONENT_KEYS =
     [(''baseline'', [''Baseline (kcal)'', ''Baseline Activity (kcal)'', ''Base (kcal)'',
                      ''Resting Expenditure (kcal)''])]"

record burn_component =
  c_value :: rat
  c_rawValue :: rat
  c_sourceKey :: string

text \<open>
  The variables the two loops of \<open>extractBurnedComponents\<close> update: the components
  found, the names not found, and the two running totals.
\<close>

record extract_acc =
  acc_components :: "(string \<times> burn_component) list"
  acc_missing :: "string list"
  acc_total :: rat
  acc_rawTotal :: rat

fun extractLoop :: "jsobject \<Rightarrow> (string \<times> string list) list \<Rightarrow> extract_acc \<Rightarrow> extract_acc" where
  "extractLoop entry [] st = st"
| "extractLoop entry ((component, keys) # rest) st =
     (case getNumericField entry keys of
        Some (raw, key) \<Rightarrow>
          extractLoop entry rest
            (st\<lparr>acc_components := acc_components st @
                    [(component, \<lparr>c_value = \<bar>raw\<bar>, c_rawValue = raw, c_sourceKey = key\<rparr>)],
                 acc_total := acc_total st + \<bar>raw\<bar>,
                 acc_rawTotal := acc_rawTotal st + raw\<rparr>)
      | None \<Rightarrow>
          extractLoop entry rest (st\<lparr>acc_missing := acc_missing st @ [component]\<rparr>))"

record burned_components =
  hasAny :: bool
  hasAll :: bool
  total :: rat
  rawTotal :: rat
  components :: "(string \<times> burn_component) list"
  missingComponents :: "string list"
  missingOptionalComponents :: "string list"

definition extractBurnedComponents :: "jsobject \<Rightarrow> burned_components" where
  "extractBurnedComponents entry =
     (let st0 = \<lparr>acc_components = [], acc_missing = [], acc_total = 0, acc_rawTotal = 0\<rparr>;
          st1 = extractLoop entry BURN_COMPONENT_KEYS st0;
          missing = acc_missing st1;
          st2 = extractLoop entry OPTIONAL_BURN_COMPONENT_KEYS (st1\<lparr>acc_missing := []\<rparr>)
      in \<lparr>hasAny = (acc_components st2 \<noteq> []),
          hasAll = (length missing = 0),
          total = acc_total st2,
          rawTotal = acc_rawTotal st2,
          components = acc_components st2,
          missingComponents = missing,
          missingOptionalComponents = acc_missing st2\<rparr>)"

section \<open>Exercise-log aggregation (server)\<close>

text \<open>
  \<open>typeof entry?.date === "string" ? entry.date : null\<close> followed by the test
  \<open>!date\<close>: a string that is not empty, or nothing.
\<close>

definition stringDate :: "jsobject \<Rightarrow> jsstring option" where
  "stringDate entry =
     (case entry ''date'' of
        Some (JStr s) \<Rightarrow> if s = [] then None else Some s
      | _ \<Rightarrow> None)"

record burned_agg =
  agg_burnedRawCalories :: rat
  agg_burnedCalories :: rat
  agg_entries :: nat
  agg_components :: "jsstring \<rightharpoonup> rat"

definition exerciseName :: "jsobject \<Rightarrow> jsstring" where
  "exerciseName entry = (case entry ''exercise'' of Some (JStr s) \<Rightarrow> s | _ \<Rightarrow> js ''Unknown'')"

text \<open>One iteration of the loop of \<open>aggregateBurnedByDate\<close>.\<close>

definition aggregateStep :: "(jsstring \<rightharpoonup> burned_agg) \<Rightarrow> jsobject \<Rightarrow> (jsstring \<rightharpoonup> burned_agg)" where
  "aggregateStep byDate entry =
     (case stringDate entry of
        None \<Rightarrow> byDate
      | Some date \<Rightarrow>
          (let raw = (case parseNumber (entry ''caloriesBurned'') of Some x \<Rightarrow> x | None \<Rightarrow> 0);
               abs = \<bar>raw\<bar>;
               existing = (case byDate date of
                             Some e \<Rightarrow> e
                           | None \<Rightarrow> \<lparr>agg_burnedRawCalories = 0, agg_burnedCalories = 0,
                                       agg_entries = 0, agg_components = Map.empty\<rparr>);
               component = exerciseName entry
           in byDate(date \<mapsto>
                \<lparr>agg_burnedRawCalories = agg_burnedRawCalories existing + raw,
                 agg_burnedCalories = agg_burnedCalories existing + abs,
                 agg_entries = agg_entries existing + 1,
                 agg_components = (agg_components existing)(component \<mapsto>
                    (case agg_components existing component of Some v \<Rightarrow> v | None \<Rightarrow> 0) + abs)\<rparr>)))"

definition aggregateBurnedByDate :: "jsobject list \<Rightarrow> (jsstring \<rightharpoonup> burned_agg)" where
  "aggregateBurnedByDate exercises = foldl aggregateStep Map.empty exercises"

section \<open>The scraper (energy-scrape)\<close>

subsection \<open>\<open>Array.prototype.sort\<close> with a comparator\<close>

text \<open>
  The sort is stable: an element is placed behind every earlier element that the
  comparator does not put after it (\<open>cmp y x \<le> 0\<close>).
\<close>

fun insertBy :: "('a \<Rightarrow> 'a \<Rightarrow> rat) \<Rightarrow> 'a \<Rightarrow> 'a list \<Rightarrow> 'a list" where
  "insertBy cmp x [] = [x]"
| "insertBy cmp x (y # ys) = (if cmp y x \<le> 0 then y # insertBy cmp x ys else x # y # ys)"

definition arraySort :: "('a \<Rightarrow> 'a \<Rightarrow> rat) \<Rightarrow> 'a list \<Rightarrow> 'a list" where
  "arraySort cmp xs = foldl (\<lambda>acc x. insertBy cmp x acc) [] xs"

subsection \<open>Text to number in the page: \<open>num\<close>\<close>


subsection \<open>\<open>normalizeDates\<close>\<close>

text \<open>\<open>DATE_RE = /^\d{4}-\d{2}-\d{2}$/\<close>: ten code units, digits around two hyphens.\<close>

definition DATE_RE_test :: "jsstring \<Rightarrow> bool" where
  "DATE_RE_test s =
     (case s of
        [y1, y2, y3, y4, h1, m1, m2, h2, d1, d2] \<Rightarrow>
          isDigit y1 \<and> isDigit y2 \<and> isDigit y3 \<and> isDigit y4 \<and> h1 = 45
          \<and> isDigit m1 \<and> isDigit m2 \<and> h2 = 45 \<and> isDigit d1 \<and> isDigit d2
      | _ \<Rightarrow> False)"

text \<open>The loop filling the \<open>Set\<close>; the list keeps the set's insertion order.\<close>

fun collectDates :: "jsstring list \<Rightarrow> jsval list \<Rightarrow> jsstring list" where
  "collectDates unique [] = unique"
| "collectDates unique (JStr date # rest) =
     (let trimmed = trim date
      in if DATE_RE_test trimmed
         then collectDates (if trimmed \<in> set unique then unique else unique @ [trimmed]) rest
         else collectDates unique rest)"
| "collectDates unique (_ # rest) = collectDates unique rest"

definition dateComparator :: "jsstring \<Rightarrow> jsstring \<Rightarrow> rat" where
  "dateComparator a b = (if a < b then 1 else if a > b then - 1 else 0)"

text \<open>The argument is an array, or \<open>null\<close>/\<open>undefined\<close> (\<open>None\<close>), read as no dates.\<close>

definition normalizeDates :: "jsval list option \<Rightarrow> jsstring list" where
  "normalizeDates dates =
     arraySort dateComparator
       (collectDates [] (case dates of None \<Rightarrow> [] | Some ds \<Rightarrow> ds))"

subsection \<open>\<open>normalizeScrapedEntry\<close>\<close>

text \<open>
  One entry as the page script returns it: each metric is a finite number or \<open>null\<close>
  (\<open>num\<close> yields nothing else), the date a string.
\<close>

record raw_scraped_entry =
  r_date :: "jsstring option"
  r_bmr :: "rat option"
  r_tef :: "rat option"
  r_exercise :: "rat option"
  r_trackerActivity :: "rat option"
  r_baseline :: "rat option"
  r_energyBurned :: "rat option"
  r_energyBalance :: "rat option"

record scraped_components =
  sc_bmr :: "rat option"
  sc_tef :: "rat option"
  sc_exercise :: "rat option"
  sc_trackerActivity :: "rat option"
  sc_baseline :: "rat option"

record burn_candidates =
  bc_energyBurned :: "rat option"
  bc_energyBalance :: "rat option"
  bc_componentTotalWithBaseline :: rat

record scraped_entry =
  s_date :: "jsstring option"
  s_components :: scraped_components
  s_energyBurned :: "rat option"
  s_energyBalance :: "rat option"
  s_missingComponents :: "string list"
  s_hasAllCoreComponents :: bool
  s_componentTotalCore :: rat
  s_componentTotalWithBaseline :: rat
  s_burnCandidates :: burn_candidates
  s_resolvedBurnedSource :: "string option"
  s_resolvedBurnedTotal :: rat
  s_componentTotal :: rat

text \<open>\<open>Math.abs(Number(value || 0))\<close>.\<close>

definition absOrZero :: "rat option \<Rightarrow> rat" where
  "absOrZero value = \<bar>case value of None \<Rightarrow> 0 | Some x \<Rightarrow> x\<bar>"

text \<open>
  The filter \<open>Number.isFinite(value) && value > 0\<close> on the candidate entries, keeping
  their order.
\<close>

fun positiveCandidates :: "(string \<times> rat option) list \<Rightarrow> (string \<times> rat) list" where
  "positiveCandidates [] = []"
| "positiveCandidates ((k, None) # rest) = positiveCandidates rest"
| "positiveCandidates ((k, Some x) # rest) =
     (if 0 < x then (k, x) # positiveCandidates rest else positiveCandidates rest)"

definition normalizeScrapedEntry :: "raw_scraped_entry \<Rightarrow> scraped_entry" where
  "normalizeScrapedEntry entry =
     (let bmr = r_bmr entry; tef = r_tef entry; exercise = r_exercise entry;
          trackerActivity = r_trackerActivity entry; baseline = r_baseline entry;
          energyBurned = r_energyBurned entry; energyBalance = r_energyBalance entry;
          core = [(''bmr'', bmr), (''tef'', tef), (''exercise'', exercise),
                  (''trackerActivity'', trackerActivity)];
          missingComponents = map fst (filter (\<lambda>(key, value). value = None) core);
          componentTotalCore = foldl (\<lambda>sum value. sum + absOrZero value) 0 (map snd core);
          componentTotalWithBaseline = componentTotalCore + absOrZero baseline;
          energyBurnedAbs = map_option abs energyBurned;
          energyBalanceRaw = energyBalance;
          energyBalanceAbs = map_option abs energyBalanceRaw;
          balance0 = (case energyBalanceRaw of
                        Some r \<Rightarrow> if 0 < r then energyBalanceAbs else None
                      | None \<Rightarrow> None);
          balance1 = (case balance0 of
                        Some b \<Rightarrow>
                          if 0 < componentTotalWithBaseline
                          then (let ratio = b / componentTotalWithBaseline
                                in if ratio < 0.7 \<or> 1.8 < ratio then None else Some b)
                          else Some b
                      | None \<Rightarrow> None);
          burnCandidates = \<lparr>bc_energyBurned = energyBurnedAbs, bc_energyBalance = balance1,
                            bc_componentTotalWithBaseline = componentTotalWithBaseline\<rparr>;
          sorted = arraySort (\<lambda>a b. snd b - snd a)
                     (positiveCandidates
                        [(''energyBurned'', bc_energyBurned burnCandidates),
                         (''energyBalance'', bc_energyBalance burnCandidates),
                         (''componentTotalWithBaseline'',
                            Some (bc_componentTotalWithBaseline burnCandidates))]);
          resolvedBurnedEntry = (case sorted of [] \<Rightarrow> None | e # _ \<Rightarrow> Some e)
      in \<lparr>s_date = (case r_date entry of Some d \<Rightarrow> if d = [] then None else Some d
                                          | None \<Rightarrow> None),
          s_components = \<lparr>sc_bmr = map_option abs bmr, sc_tef = map_option abs tef,
                           sc_exercise = map_option abs exercise,
                           sc_trackerActivity = map_option abs trackerActivity,
                           sc_baseline = map_option abs baseline\<rparr>,
          s_energyBurned = energyBurnedAbs,
          s_energyBalance = energyBalanceRaw,
          s_missingComponents = missingComponents,
          s_hasAllCoreComponents = (length missingComponents = 0),
          s_componentTotalCore = componentTotalCore,
          s_componentTotalWithBaseline = componentTotalWithBaseline,
          s_burnCandidates = burnCandidates,
          s_resolvedBurnedSource = map_option fst resolvedBurnedEntry,
          s_resolvedBurnedTotal = (case resolvedBurnedEntry of Some e \<Rightarrow> snd e | None \<Rightarrow> 0),
          s_componentTotal = componentTotalWithBaseline\<rparr>)"

subsection \<open>\<open>scrapeEnergySummaryForDates\<close>\<close>

text \<open>
  The collaborators are out of reach of the model; what they answer is a parameter
  (\<open>scrape_world\<close>), and what the function asks of them is recorded, in order, as a list
  of effects returned beside the result. An exception is the \<open>Inl\<close> result.
\<close>

datatype scrape_effect =
    LoadCredentialsModule
  | ReadCredential string
  | SetKernelApiKey jsstring
  | LoadKernelSdk
  | CreateBrowserSession
  | ExecuteLogin
  | ExecuteScrape "jsstring list"
  | DeleteBrowserSession

datatype scrape_error =
    InvalidCredentialsModule
  | MissingCredential string
  | InvalidKernelSdk
  | BrowserSessionFailed
  | LoginFailed
  | ScrapeAutomationFailed
  | ScrapeFailed

record scrape_world =
  w_credentialsModule :: bool
  w_credential :: "string \<Rightarrow> jsstring option"
  w_kernelSdk :: bool
  w_browserSession :: bool
  w_login :: bool
  w_scrape :: "jsstring list \<Rightarrow> scrape_error + raw_scraped_entry list"

text \<open>The part inside \<open>try ... finally\<close>: log in, then run the page script.\<close>

definition scrapeInSession ::
  "scrape_world \<Rightarrow> jsstring list \<Rightarrow> scrape_effect list \<times> (scrape_error + scraped_entry list)" where
  "scrapeInSession w normalizedDates =
     (if \<not> w_login w then ([ExecuteLogin], Inl LoginFailed)
      else case w_scrape w normalizedDates of
             Inl e \<Rightarrow> ([ExecuteLogin, ExecuteScrape normalizedDates], Inl e)
           | Inr entries \<Rightarrow>
               ([ExecuteLogin, ExecuteScrape normalizedDates],
                Inr (map normalizeScrapedEntry entries)))"

definition scrapeEnergySummaryForDates ::
  "scrape_world \<Rightarrow> jsval list option \<Rightarrow> scrape_effect list \<times> (scrape_error + scraped_entry list)" where
  "scrapeEnergySummaryForDates w dates =
     (let normalizedDates = normalizeDates dates
      in if length normalizedDates = 0 then ([], Inr [])
         else if \<not> w_credentialsModule w
         then ([LoadCredentialsModule], Inl InvalidCredentialsModule)
         else case w_credential w ''CRONO_KERNEL_API_KEY'' of
           None \<Rightarrow>
             ([LoadCredentialsModule, ReadCredential ''CRONO_KERNEL_API_KEY''],
              Inl (MissingCredential ''CRONO_KERNEL_API_KEY''))
         | Some kernelApiKey \<Rightarrow>
         (case w_credential w ''CRONO_CRONOMETER_EMAIL'' of
           None \<Rightarrow>
             ([LoadCredentialsModule, ReadCredential ''CRONO_KERNEL_API_KEY'',
               ReadCredential ''CRONO_CRONOMETER_EMAIL''],
              Inl (MissingCredential ''CRONO_CRONOMETER_EMAIL''))
         | Some username \<Rightarrow>
         (case w_credential w ''CRONO_CRONOMETER_PASSWORD'' of
           None \<Rightarrow>
             ([LoadCredentialsModule, ReadCredential ''CRONO_KERNEL_API_KEY'',
               ReadCredential ''CRONO_CRONOMETER_EMAIL'',
               ReadCredential ''CRONO_CRONOMETER_PASSWORD''],
              Inl (MissingCredential ''CRONO_CRONOMETER_PASSWORD''))
         | Some password \<Rightarrow>
         (let credentialEffects =
                [LoadCredentialsModule, ReadCredential ''CRONO_KERNEL_API_KEY'',
                 ReadCredential ''CRONO_CRONOMETER_EMAIL'',
                 ReadCredential ''CRONO_CRONOMETER_PASSWORD'',
                 SetKernelApiKey kernelApiKey, LoadKernelSdk]
          in if \<not> w_kernelSdk w then (credentialEffects, Inl InvalidKernelSdk)
             else if \<not> w_browserSession w
             then (credentialEffects @ [CreateBrowserSession], Inl BrowserSessionFailed)
             else (let (effects, result) = scrapeInSession w normalizedDates
                   in (credentialEffects @ [CreateBrowserSession] @ effects
                         @ [DeleteBrowserSession], result))))))"

section \<open>Range reconciliation: the weekly-average-deficit route (server)\<close>

text \<open>\<open>mapEnergyScrapeByDate\<close>: a later entry of the same date replaces an earlier one.\<close>

definition mapEnergyScrapeByDate :: "scraped_entry list \<Rightarrow> (jsstring \<rightharpoonup> scraped_entry)" where
  "mapEnergyScrapeByDate entries =
     foldl (\<lambda>m entry. case s_date entry of
                          None \<Rightarrow> m
                        | Some date \<Rightarrow> if date = [] then m else m(date \<mapsto> entry))
       Map.empty entries"

text \<open>
  \<open>String(entry?.Completed || "").toLowerCase() === "true"\<close>. Only a string spelling
  \<open>true\<close> in some letter case, or the boolean, gives \<open>"true"\<close>: no number prints so,
  and no character outside ASCII has a lower case among \<open>t\<close>, \<open>r\<close>, \<open>u\<close>, \<open>e\<close>.
\<close>

definition toLowerAscii :: "nat \<Rightarrow> nat" where
  "toLowerAscii c = (if 65 \<le> c \<and> c \<le> 90 then c + 32 else c)"

definition isCompleted :: "jsobject \<Rightarrow> bool" where
  "isCompleted entry =
     (case entry ''Completed'' of
        Some (JBool b) \<Rightarrow> b
      | Some (JStr s) \<Rightarrow> map toLowerAscii s = js ''true''
      | _ \<Rightarrow> False)"

definition completedEntriesOf :: "jsstring \<Rightarrow> jsobject list \<Rightarrow> jsobject list" where
  "completedEntriesOf todayLocal nutritionEntries =
     filter (\<lambda>entry.
        let date = (case entry ''date'' of Some (JStr s) \<Rightarrow> s | _ \<Rightarrow> [])
        in isCompleted entry \<and> date \<noteq> todayLocal) nutritionEntries"

text \<open>\<open>entry?.date || null\<close>, and \<open>date ? map.get(date) : null\<close> on a map keyed by strings.\<close>

definition entryDate :: "jsobject \<Rightarrow> jsval option" where
  "entryDate entry = (if truthy (entry ''date'') then entry ''date'' else None)"

definition getByDate :: "(jsstring \<rightharpoonup> 'a) \<Rightarrow> jsval option \<Rightarrow> 'a option" where
  "getByDate m date = (case date of Some (JStr s) \<Rightarrow> if s = [] then None else m s | _ \<Rightarrow> None)"

text \<open>The shapes \<open>burnedBreakdown\<close> takes, one per branch.\<close>

datatype breakdown =
    NoBreakdown
  | ScrapeTotalBreakdown scraped_components rat rat rat
  | ScrapeComponentsBreakdown scraped_components
  | NutritionBreakdown "(string \<times> burn_component) list"
  | InferredBreakdown rat
  | ExerciseBreakdown "jsstring \<rightharpoonup> rat"

record burn_choice =
  ch_burned :: "rat option"
  ch_burnedRaw :: "rat option"
  ch_burnedSource :: string
  ch_burnedBreakdown :: breakdown
  ch_missingBurnComponents :: "string list"

text \<open>
  \<open>scraped?.componentTotalWithBaseline ?? scraped?.componentTotal ??
  scraped?.componentTotalCore ?? 0\<close>: a normalised entry always has the first.
\<close>

definition scrapedComponentTotalOf :: "scraped_entry option \<Rightarrow> rat" where
  "scrapedComponentTotalOf scraped =
     (case scraped of Some s \<Rightarrow> s_componentTotalWithBaseline s | None \<Rightarrow> 0)"

text \<open>
  The chain of branches of the per-day callback that sets \<open>burned\<close>, \<open>burnedRaw\<close>,
  \<open>burnedSource\<close>, \<open>burnedBreakdown\<close> and \<open>missingBurnComponents\<close>.
\<close>

definition selectBurned ::
  "scraped_entry option \<Rightarrow> burned_components \<Rightarrow> (rat \<times> string) option
     \<Rightarrow> burned_agg option \<Rightarrow> burn_choice" where
  "selectBurned scraped burnComponents inferredBurned burnedAgg =
     (let scrapedComponentTotal = scrapedComponentTotalOf scraped;
          scrapedEnergyBurned = (case scraped of Some s \<Rightarrow> s_energyBurned s | None \<Rightarrow> None);
          scrapedHasAll = (case scraped of Some s \<Rightarrow> s_hasAllCoreComponents s | None \<Rightarrow> False)
      in case (scraped, scrapedEnergyBurned) of
        (Some s, Some energyBurned) \<Rightarrow>
          \<lparr>ch_burned = Some \<bar>energyBurned\<bar>,
           ch_burnedRaw = Some energyBurned,
           ch_burnedSource = ''scrape_energy_burned_total'',
           ch_burnedBreakdown =
             ScrapeTotalBreakdown (s_components s) energyBurned (s_componentTotalCore s)
               (s_componentTotalWithBaseline s),
           ch_missingBurnComponents = s_missingComponents s\<rparr>
      | _ \<Rightarrow>
        if scrapedHasAll \<and> 0 < scrapedComponentTotal then
          \<lparr>ch_burned = Some scrapedComponentTotal,
           ch_burnedRaw = Some scrapedComponentTotal,
           ch_burnedSource = ''scrape_components_complete'',
           ch_burnedBreakdown =
             (case scraped of Some s \<Rightarrow> ScrapeComponentsBreakdown (s_components s)
                            | None \<Rightarrow> NoBreakdown),
           ch_missingBurnComponents = []\<rparr>
        else if 0 < scrapedComponentTotal then
          \<lparr>ch_burned = Some scrapedComponentTotal,
           ch_burnedRaw = Some scrapedComponentTotal,
           ch_burnedSource = ''scrape_components_partial'',
           ch_burnedBreakdown =
             (case scraped of Some s \<Rightarrow> ScrapeComponentsBreakdown (s_components s)
                            | None \<Rightarrow> NoBreakdown),
           ch_missingBurnComponents =
             (case scraped of Some s \<Rightarrow> s_missingComponents s
                            | None \<Rightarrow> map fst BURN_COMPONENT_KEYS)\<rparr>
        else if hasAny burnComponents then
          \<lparr>ch_burned = Some (total burnComponents),
           ch_burnedRaw = Some (rawTotal burnComponents),
           ch_burnedSource =
             (if hasAll burnComponents then ''nutrition_components_complete''
              else ''nutrition_components_partial''),
           ch_burnedBreakdown = NutritionBreakdown (components burnComponents),
           ch_missingBurnComponents = missingComponents burnComponents\<rparr>
        else case inferredBurned of
          Some (burned, source) \<Rightarrow>
            \<lparr>ch_burned = Some burned,
             ch_burnedRaw = Some burned,
             ch_burnedSource = source,
             ch_burnedBreakdown = InferredBreakdown burned,
             ch_missingBurnComponents = map fst BURN_COMPONENT_KEYS\<rparr>
        | None \<Rightarrow>
          (case burnedAgg of
             Some agg \<Rightarrow>
               \<lparr>ch_burned = Some (agg_burnedCalories agg),
                ch_burnedRaw = Some (agg_burnedRawCalories agg),
                ch_burnedSource = ''exercise_export_abs'',
                ch_burnedBreakdown = ExerciseBreakdown (agg_components agg),
                ch_missingBurnComponents = [''bmr'', ''tef'']\<rparr>
           | None \<Rightarrow>
               \<lparr>ch_burned = None,
                ch_burnedRaw = None,
                ch_burnedSource = ''none'',
                ch_burnedBreakdown = NoBreakdown,
                ch_missingBurnComponents = map fst BURN_COMPONENT_KEYS\<rparr>))"

record reconciled_day =
  date :: "jsval option"
  consumedCalories :: rat
  burnedCalories :: rat
  burnedRawCalories :: rat
  burnedSource :: string
  burnedBreakdown :: breakdown
  missingBurnComponents :: "string list"
  netCalories :: rat
  status :: string

text \<open>The callback of \<open>completedEntries.map\<close>.\<close>

definition reconcileDay ::
  "(jsstring \<rightharpoonup> scraped_entry) \<Rightarrow> (jsstring \<rightharpoonup> burned_agg) \<Rightarrow> jsobject \<Rightarrow> reconciled_day" where
  "reconcileDay scrapedByDate burnedByDate entry =
     (let date = entryDate entry;
          consumed = (case parseNumber (entry ''calories'') of Some x \<Rightarrow> x | None \<Rightarrow> 0);
          burnedAgg = getByDate burnedByDate date;
          inferredBurned = inferBurnedCalories entry;
          burnComponents = extractBurnedComponents entry;
          scraped = getByDate scrapedByDate date;
          choice = selectBurned scraped burnComponents inferredBurned burnedAgg;
          burnedFinal = (case ch_burned choice of Some b \<Rightarrow> b | None \<Rightarrow> 0);
          burnedRawFinal = (case ch_burnedRaw choice of Some b \<Rightarrow> b | None \<Rightarrow> 0);
          net = consumed - burnedFinal
      in \<lparr>date = date,
          consumedCalories = consumed,
          burnedCalories = burnedFinal,
          burnedRawCalories = burnedRawFinal,
          burnedSource = ch_burnedSource choice,
          burnedBreakdown = ch_burnedBreakdown choice,
          missingBurnComponents = ch_missingBurnComponents choice,
          netCalories = net,
          status = (if net < 0 then ''deficit'' else if 0 < net then ''surplus''
                    else ''at_target'')\<rparr>)"

text \<open>The predicate of \<open>completedEntries.some\<close> that decides on the exercise export.\<close>

definition needsExercise :: "(jsstring \<rightharpoonup> scraped_entry) \<Rightarrow> jsobject \<Rightarrow> bool" where
  "needsExercise scrapedByDate entry =
     (if \<not> truthy (entry ''date'') then True
      else case getByDate scrapedByDate (entry ''date'') of
             Some s \<Rightarrow>
               if s_hasAllCoreComponents s \<or> s_energyBurned s \<noteq> None \<or> 0 < s_componentTotal s
               then False
               else \<not> hasAny (extractBurnedComponents entry) \<and> inferBurnedCalories entry = None
           | None \<Rightarrow>
               \<not> hasAny (extractBurnedComponents entry) \<and> inferBurnedCalories entry = None)"

record http_error =
  err_status :: nat
  err_message :: string
  err_daysWithoutBurnSource :: "jsval list"
  err_scrapeError :: "scrape_error option"
  err_exercisesFallbackError :: "string option"

record range_summary =
  daysUsed :: nat
  totalConsumedCalories :: rat
  totalBurnedCalories :: rat
  totalBurnedRawCalories :: rat
  totalNetCalories :: rat
  averageNetCaloriesPerDay :: rat
  averageDeficitPerDay :: rat
  averageSurplusPerDay :: rat
  averageStatus :: string
  dataQuality :: string
  daysWithCompleteComponents :: nat
  daysWithPartialComponents :: nat
  daysUsingFallback :: nat
  missingComponentCounts :: "(string \<times> nat) list"
  perDay :: "reconciled_day list"

definition completeBurnSources :: "string list" where
  "completeBurnSources =
     [''scrape_components_complete'', ''scrape_energy_burned_total'',
      ''nutrition_components_complete'']"

definition partialBurnSources :: "string list" where
  "partialBurnSources = [''scrape_components_partial'', ''nutrition_components_partial'']"

text \<open>\<open>daysWithoutBurnSource\<close>: the dates of the days tagged \<open>none\<close>, falsy dates dropped.\<close>

definition daysWithoutBurnSourceOf :: "reconciled_day list \<Rightarrow> jsval list" where
  "daysWithoutBurnSourceOf days =
     concat (map (\<lambda>d. case date d of Some v \<Rightarrow> if truthy (Some v) then [v] else []
                                    | None \<Rightarrow> [])
               (filter (\<lambda>day. burnedSource day = ''none'') days))"

text \<open>The statements after the 503 check: totals, averages and diagnostics.\<close>

definition summarize :: "reconciled_day list \<Rightarrow> range_summary" where
  "summarize days =
     (let used = length days;
          consumedTotal = foldl (\<lambda>sum d. sum + consumedCalories d) 0 days;
          burnedTotal = foldl (\<lambda>sum d. sum + burnedCalories d) 0 days;
          burnedRawTotal = foldl (\<lambda>sum d. sum + burnedRawCalories d) 0 days;
          netTotal = consumedTotal - burnedTotal;
          averagePerDay = (if used = 0 then 0 else netTotal / of_nat used);
          nComplete = length (filter (\<lambda>d. burnedSource d \<in> set completeBurnSources) days);
          nPartial = length (filter (\<lambda>d. burnedSource d \<in> set partialBurnSources) days);
          nFallback = length (filter (\<lambda>d. burnedSource d \<notin> set completeBurnSources
                                           \<and> burnedSource d \<notin> set partialBurnSources) days)
      in \<lparr>daysUsed = used,
          totalConsumedCalories = consumedTotal,
          totalBurnedCalories = burnedTotal,
          totalBurnedRawCalories = burnedRawTotal,
          totalNetCalories = netTotal,
          averageNetCaloriesPerDay = averagePerDay,
          averageDeficitPerDay = (if averagePerDay < 0 then \<bar>averagePerDay\<bar> else 0),
          averageSurplusPerDay = (if 0 < averagePerDay then averagePerDay else 0),
          averageStatus = (if averagePerDay < 0 then ''deficit''
                           else if 0 < averagePerDay then ''surplus'' else ''at_target''),
          dataQuality = (if nComplete = used \<and> 0 < used then ''component_complete''
                         else if 0 < nPartial \<or> 0 < nFallback then ''component_incomplete''
                         else ''no_completed_days''),
          daysWithCompleteComponents = nComplete,
          daysWithPartialComponents = nPartial,
          daysUsingFallback = nFallback,
          missingComponentCounts =
            map (\<lambda>component.
                   (component,
                    foldl (\<lambda>n d. n + count_list (missingBurnComponents d) component) 0 days))
              [''bmr'', ''tef'', ''exercise'', ''trackerActivity''],
          perDay = days\<rparr>)"

text \<open>
  The route from the fetched nutrition export on. Its parameters are what the outside
  answers: the scraper's world, the exercise export (an error message or the rows, asked
  for only when some day needs it) and today's date.
\<close>

definition weeklyAverageDeficit ::
  "scrape_world \<Rightarrow> string + jsobject list \<Rightarrow> jsstring \<Rightarrow> jsobject list
     \<Rightarrow> http_error + range_summary" where
  "weeklyAverageDeficit world exercisesExport todayLocal nutritionEntries =
     (let completedEntries = completedEntriesOf todayLocal nutritionEntries;
          completedDates = concat (map (\<lambda>entry. case stringDate entry of Some d \<Rightarrow> [d]
                                                                        | None \<Rightarrow> [])
                                     completedEntries);
          scrapeOutcome =
            (if 0 < length completedDates
             then snd (scrapeEnergySummaryForDates world (Some (map JStr completedDates)))
             else Inr []);
          scrapeError = (case scrapeOutcome of Inl e \<Rightarrow> Some e | Inr _ \<Rightarrow> None);
          scrapedEntries = (case scrapeOutcome of Inl _ \<Rightarrow> [] | Inr es \<Rightarrow> es);
          scrapedByDate = mapEnergyScrapeByDate scrapedEntries;
          needsExerciseFallback = list_ex (needsExercise scrapedByDate) completedEntries;
          burnedByDate =
            (if needsExerciseFallback
             then (case exercisesExport of Inr rows \<Rightarrow> aggregateBurnedByDate rows
                                         | Inl _ \<Rightarrow> Map.empty)
             else Map.empty);
          exercisesError =
            (if needsExerciseFallback
             then (case exercisesExport of Inr _ \<Rightarrow> None | Inl e \<Rightarrow> Some e)
             else None);
          days = map (reconcileDay scrapedByDate burnedByDate) completedEntries;
          daysWithoutBurnSource = daysWithoutBurnSourceOf days
      in if 0 < length daysWithoutBurnSource
         then Inl \<lparr>err_status = 503,
                   err_message =
                     ''Unable to determine burned calories for one or more completed days.'',
                   err_daysWithoutBurnSource = daysWithoutBurnSource,
                   err_scrapeError = scrapeError,
                   err_exercisesFallbackError = exercisesError\<rparr>
         else Inr (summarize days))"

section \<open>Specification-side notions and example inputs\<close>

text \<open>
  None of these is code of the repository: they state the properties proved below, in the
  words of the specification, and fix the concrete inputs the examples run on.
\<close>

subsection \<open>Burn candidates of a scraped entry\<close>

definition sortedCandidates :: "raw_scraped_entry \<Rightarrow> (string \<times> rat) list" where
  "sortedCandidates raw =
     (let bc = s_burnCandidates (normalizeScrapedEntry raw)
      in arraySort (\<lambda>a b. snd b - snd a)
           (positiveCandidates
              [(''energyBurned'', bc_energyBurned bc), (''energyBalance'', bc_energyBalance bc),
               (''componentTotalWithBaseline'', Some (bc_componentTotalWithBaseline bc))]))"

definition burnCandidateSet :: "raw_scraped_entry \<Rightarrow> (string \<times> rat) set" where
  "burnCandidateSet raw =
     {(k, v). 0 < v \<and>
        ((k = ''energyBurned'' \<and> (\<exists>e. r_energyBurned raw = Some e \<and> v = \<bar>e\<bar>))
         \<or> (k = ''energyBalance''
              \<and> bc_energyBalance (s_burnCandidates (normalizeScrapedEntry raw)) = Some v)
         \<or> (k = ''componentTotalWithBaseline''
              \<and> v = s_componentTotalWithBaseline (normalizeScrapedEntry raw)))}"


subsection \<open>Scraper inputs\<close>

definition scrapedMixed :: raw_scraped_entry where
  "scrapedMixed =
     \<lparr>r_date = Some (js ''2024-01-02''), r_bmr = Some 1500, r_tef = Some 200,
      r_exercise = Some 300, r_trackerActivity = None, r_baseline = None,
      r_energyBurned = Some (- 500), r_energyBalance = Some (- 700)\<rparr>"

definition offlineWorld :: scrape_world where
  "offlineWorld =
     \<lparr>w_credentialsModule = False, w_credential = (\<lambda>k. None), w_kernelSdk = False,
      w_browserSession = False, w_login = False, w_scrape = (\<lambda>ds. Inl ScrapeFailed)\<rparr>"

subsection \<open>Number text\<close>




subsection \<open>Reconciliation tiers\<close>

definition allCorePresent :: "scraped_components \<Rightarrow> bool" where
  "allCorePresent c =
     (sc_bmr c \<noteq> None \<and> sc_tef c \<noteq> None \<and> sc_exercise c \<noteq> None \<and> sc_trackerActivity c \<noteq> None)"

fun firstApplicable :: "'a option list \<Rightarrow> 'a \<Rightarrow> 'a" where
  "firstApplicable [] d = d"
| "firstApplicable (Some x # ts) d = x"
| "firstApplicable (None # ts) d = firstApplicable ts d"

definition tierOrder ::
  "scraped_entry option \<Rightarrow> burned_components \<Rightarrow> (rat \<times> string) option \<Rightarrow> burned_agg option
     \<Rightarrow> (string \<times> rat) option list" where
  "tierOrder scraped bc inferred agg =
     [case scraped of
        Some s \<Rightarrow> (case s_energyBurned s of
                     Some eb \<Rightarrow> Some (''scrape_energy_burned_total'', \<bar>eb\<bar>)
                   | None \<Rightarrow> None)
      | None \<Rightarrow> None,
      case scraped of
        Some s \<Rightarrow> if allCorePresent (s_components s) \<and> 0 < s_componentTotalWithBaseline s
                  then Some (''scrape_components_complete'', s_componentTotalWithBaseline s)
                  else None
      | None \<Rightarrow> None,
      case scraped of
        Some s \<Rightarrow> if 0 < s_componentTotalWithBaseline s \<and> \<not> allCorePresent (s_components s)
                  then Some (''scrape_components_partial'', s_componentTotalWithBaseline s)
                  else None
      | None \<Rightarrow> None,
      if hasAny bc
      then Some (if hasAll bc then ''nutrition_components_complete''
                 else ''nutrition_components_partial'', total bc)
      else None,
      case inferred of Some (burned, source) \<Rightarrow> Some (source, burned) | None \<Rightarrow> None,
      case agg of Some a \<Rightarrow> Some (''exercise_export_abs'', agg_burnedCalories a) | None \<Rightarrow> None]"

definition noScrapeTier :: "scraped_entry option \<Rightarrow> bool" where
  "noScrapeTier scraped =
     (case scraped of
        None \<Rightarrow> True
      | Some s \<Rightarrow> s_energyBurned s = None \<and> \<not> 0 < s_componentTotalWithBaseline s)"

definition dayDirectAndExport :: jsobject where
  "dayDirectAndExport =
     [''date'' \<mapsto> JStr (js ''2024-01-02''), ''Completed'' \<mapsto> JStr (js ''true''),
      ''calories'' \<mapsto> JNum (Fin 2000), ''BMR (kcal)'' \<mapsto> JNum (Fin 300),
      ''TEF (kcal)'' \<mapsto> JNum (Fin 60), ''Exercise (kcal)'' \<mapsto> JNum (Fin 70),
      ''Tracker Activity (kcal)'' \<mapsto> JNum (Fin 50)]"

definition scrapedDirect500 :: raw_scraped_entry where
  "scrapedDirect500 =
     \<lparr>r_date = Some (js ''2024-01-02''), r_bmr = None, r_tef = None, r_exercise = None,
      r_trackerActivity = None, r_baseline = None, r_energyBurned = Some 500,
      r_energyBalance = None\<rparr>"

subsection \<open>Exercise rows\<close>

definition rowCalories :: "jsobject \<Rightarrow> rat" where
  "rowCalories row = (case parseNumber (row ''caloriesBurned'') of Some x \<Rightarrow> x | None \<Rightarrow> 0)"

definition rowsOfDate :: "jsstring \<Rightarrow> jsobject list \<Rightarrow> jsobject list" where
  "rowsOfDate d rows = filter (\<lambda>row. stringDate row = Some d) rows"

definition dayExerciseOnly :: jsobject where
  "dayExerciseOnly =
     [''date'' \<mapsto> JStr (js ''2024-01-02''), ''Completed'' \<mapsto> JStr (js ''true''),
      ''calories'' \<mapsto> JNum (Fin 2000)]"

definition exerciseRows :: "jsobject list" where
  "exerciseRows =
     [[''date'' \<mapsto> JStr (js ''2024-01-02''), ''caloriesBurned'' \<mapsto> JNum (Fin (- 250)),
       ''exercise'' \<mapsto> JStr (js ''Running'')],
      [''date'' \<mapsto> JStr (js ''2024-01-02''), ''caloriesBurned'' \<mapsto> JNum (Fin (- 100)),
       ''exercise'' \<mapsto> JStr (js ''Walking'')]]"

definition scrapedZeroBurned :: raw_scraped_entry where
  "scrapedZeroBurned =
     \<lparr>r_date = Some (js ''2024-01-02''), r_bmr = Some 1500, r_tef = None, r_exercise = None,
      r_trackerActivity = None, r_baseline = None, r_energyBurned = Some 0,
      r_energyBalance = None\<rparr>"

subsection \<open>Signed sources\<close>




definition scrapedNegativeBurned :: raw_scraped_entry where
  "scrapedNegativeBurned =
     \<lparr>r_date = Some (js ''2024-01-02''), r_bmr = None, r_tef = None, r_exercise = None,
      r_trackerActivity = None, r_baseline = None, r_energyBurned = Some (- 500),
      r_energyBalance = None\<rparr>"


definition dayWithoutDate :: jsobject where
  "dayWithoutDate = [''Completed'' \<mapsto> JStr (js ''true''), ''calories'' \<mapsto> JNum (Fin 2000)]"

section \<open>Properties of the component extractors\<close>

lemma extractLoop_missing:
  "acc_missing (extractLoop entry kvs st) =
     acc_missing st @ map fst (filter (\<lambda>(c, keys). getNumericField entry keys = None) kvs)"
  by (induction kvs arbitrary: st) (auto split: option.splits)

lemma extractBurnedComponents_missing:
  "missingComponents (extractBurnedComponents entry) =
     map fst (filter (\<lambda>(c, keys). getNumericField entry keys = None) BURN_COMPONENT_KEYS)"
  by (simp add: extractBurnedComponents_def Let_def extractLoop_missing)

lemma core_names:
  "map fst BURN_COMPONENT_KEYS = [''bmr'', ''tef'', ''exercise'', ''trackerActivity'']"
  by (simp add: BURN_COMPONENT_KEYS_def)

lemma extract_missing_subset:
  "set (missingComponents (extractBurnedComponents entry))
     \<subseteq> {''bmr'', ''tef'', ''exercise'', ''trackerActivity''}"
proof -
  have "set (missingComponents (extractBurnedComponents entry))
          \<subseteq> set (map fst BURN_COMPONENT_KEYS)"
    unfolding extractBurnedComponents_missing by auto
  then show ?thesis by (simp add: core_names)
qed

lemma scraped_missing_subset:
  "set (s_missingComponents (normalizeScrapedEntry raw))
     \<subseteq> {''bmr'', ''tef'', ''exercise'', ''trackerActivity''}"
  by (auto simp: normalizeScrapedEntry_def Let_def)

text \<open>
  C7. Both extractors, the export's \<open>extractBurnedComponents\<close> and the scraper's
  \<open>normalizeScrapedEntry\<close>, report all core components present exactly when their list
  of missing components is empty, and that list holds only names among \<open>bmr\<close>, \<open>tef\<close>,
  \<open>exercise\<close> and \<open>trackerActivity\<close>; \<open>baseline\<close> is never in it.
\<close>

theorem component_flags_consistent:
  "(hasAll (extractBurnedComponents entry)
      \<longleftrightarrow> missingComponents (extractBurnedComponents entry) = [])
   \<and> set (missingComponents (extractBurnedComponents entry))
        \<subseteq> {''bmr'', ''tef'', ''exercise'', ''trackerActivity''}
   \<and> ''baseline'' \<notin> set (missingComponents (extractBurnedComponents entry))
   \<and> (s_hasAllCoreComponents (normalizeScrapedEntry raw)
        \<longleftrightarrow> s_missingComponents (normalizeScrapedEntry raw) = [])
   \<and> set (s_missingComponents (normalizeScrapedEntry raw))
        \<subseteq> {''bmr'', ''tef'', ''exercise'', ''trackerActivity''}
   \<and> ''baseline'' \<notin> set (s_missingComponents (normalizeScrapedEntry raw))"
proof -
  have a: "hasAll (extractBurnedComponents entry)
             \<longleftrightarrow> missingComponents (extractBurnedComponents entry) = []"
    by (simp add: extractBurnedComponents_def Let_def)
  have b: "s_hasAllCoreComponents (normalizeScrapedEntry raw)
             \<longleftrightarrow> s_missingComponents (normalizeScrapedEntry raw) = []"
    by (simp add: normalizeScrapedEntry_def Let_def)
  from a b extract_missing_subset[of entry] scraped_missing_subset[of raw] show ?thesis
    by auto
qed

section \<open>Sorting with a comparator\<close>

lemma set_insertBy: "set (insertBy cmp x ys) = insert x (set ys)"
  by (induction ys) auto

lemma set_arraySort_acc:
  "set (foldl (\<lambda>acc x. insertBy cmp x acc) acc xs) = set acc \<union> set xs"
  by (induction xs arbitrary: acc) (auto simp: set_insertBy)

lemma set_arraySort: "set (arraySort cmp xs) = set xs"
  by (simp add: arraySort_def set_arraySort_acc)

lemma distinct_insertBy: "distinct (insertBy cmp x ys) \<longleftrightarrow> x \<notin> set ys \<and> distinct ys"
  by (induction ys) (auto simp: set_insertBy)

lemma distinct_arraySort_acc:
  "distinct (foldl (\<lambda>acc x. insertBy cmp x acc) acc xs)
     \<longleftrightarrow> distinct acc \<and> distinct xs \<and> set acc \<inter> set xs = {}"
  by (induction xs arbitrary: acc) (auto simp: distinct_insertBy set_insertBy)

lemma distinct_arraySort: "distinct (arraySort cmp xs) \<longleftrightarrow> distinct xs"
  by (simp add: arraySort_def distinct_arraySort_acc)

text \<open>Sortedness for a comparator that orders by a key, descending.\<close>

lemma sorted_insertBy_desc:
  assumes "\<And>a b. cmp a b \<le> 0 \<longleftrightarrow> key b \<le> key a"
  shows "sorted_wrt (\<lambda>a b. key b \<le> key a) ys
           \<Longrightarrow> sorted_wrt (\<lambda>a b. key b \<le> (key a :: 'k :: linorder)) (insertBy cmp x ys)"
  using assms by (induction ys) (auto simp: set_insertBy)

lemma sorted_arraySort_acc:
  assumes "\<And>a b. cmp a b \<le> 0 \<longleftrightarrow> key b \<le> key a"
  shows "sorted_wrt (\<lambda>a b. key b \<le> key a) acc
           \<Longrightarrow> sorted_wrt (\<lambda>a b. key b \<le> (key a :: 'k :: linorder))
                 (foldl (\<lambda>acc x. insertBy cmp x acc) acc xs)"
proof (induction xs arbitrary: acc)
  case Nil
  then show ?case by simp
next
  case (Cons x xs)
  have "sorted_wrt (\<lambda>a b. key b \<le> key a) (insertBy cmp x acc)"
    using sorted_insertBy_desc[OF assms Cons.prems] .
  from Cons.IH[OF this] show ?case by simp
qed

lemma sorted_arraySort:
  assumes "\<And>a b. cmp a b \<le> 0 \<longleftrightarrow> key b \<le> key a"
  shows "sorted_wrt (\<lambda>a b. key b \<le> (key a :: 'k :: linorder)) (arraySort cmp xs)"
  unfolding arraySort_def using sorted_arraySort_acc[OF assms, where acc="[]" and xs=xs] by simp

lemma dateComparator_key: "dateComparator a b \<le> 0 \<longleftrightarrow> b \<le> a"
  by (auto simp: dateComparator_def)

lemma candidate_cmp_key: "snd b - snd a \<le> (0::rat) \<longleftrightarrow> snd b \<le> snd a"
  by simp

lemma set_collectDates:
  "set (collectDates unique ds)
     = set unique \<union> {trim s | s. JStr s \<in> set ds \<and> DATE_RE_test (trim s)}"
  by (induction unique ds rule: collectDates.induct) (auto simp: Let_def)

lemma distinct_collectDates:
  "distinct unique \<Longrightarrow> distinct (collectDates unique ds)"
  by (induction unique ds rule: collectDates.induct) (auto simp: Let_def)

lemma sorted_desc_strict:
  "sorted_wrt (\<lambda>a b. b \<le> (a :: 'a :: linorder)) xs \<Longrightarrow> distinct xs
     \<Longrightarrow> sorted_wrt (\<lambda>a b. b < a) xs"
  by (induction xs) (auto simp: less_le)

section \<open>The scraped entry: burn candidates\<close>

lemma nse_ctwb:
  "s_componentTotalWithBaseline (normalizeScrapedEntry raw)
     = absOrZero (r_bmr raw) + absOrZero (r_tef raw) + absOrZero (r_exercise raw)
       + absOrZero (r_trackerActivity raw) + absOrZero (r_baseline raw)"
  by (simp add: normalizeScrapedEntry_def Let_def)

lemma nse_energyBurned:
  "s_energyBurned (normalizeScrapedEntry raw) = map_option abs (r_energyBurned raw)"
  by (simp add: normalizeScrapedEntry_def Let_def)

lemma nse_burnCandidates:
  "bc_energyBurned (s_burnCandidates (normalizeScrapedEntry raw)) = map_option abs (r_energyBurned raw)"
  "bc_componentTotalWithBaseline (s_burnCandidates (normalizeScrapedEntry raw))
     = s_componentTotalWithBaseline (normalizeScrapedEntry raw)"
  by (simp_all add: normalizeScrapedEntry_def Let_def)

lemma nse_balance:
  "bc_energyBalance (s_burnCandidates (normalizeScrapedEntry raw)) =
     (case r_energyBalance raw of
        None \<Rightarrow> None
      | Some r \<Rightarrow>
          if 0 < r then
            (if 0 < s_componentTotalWithBaseline (normalizeScrapedEntry raw)
             then (if \<bar>r\<bar> / s_componentTotalWithBaseline (normalizeScrapedEntry raw) < 0.7
                      \<or> 1.8 < \<bar>r\<bar> / s_componentTotalWithBaseline (normalizeScrapedEntry raw)
                   then None else Some \<bar>r\<bar>)
             else Some \<bar>r\<bar>)
          else None)"
  unfolding normalizeScrapedEntry_def Let_def
  by (simp split: option.splits)

lemma resolved_unfold:
  "s_resolvedBurnedSource (normalizeScrapedEntry raw)
     = (case sortedCandidates raw of [] \<Rightarrow> None | e # _ \<Rightarrow> Some (fst e))"
  "s_resolvedBurnedTotal (normalizeScrapedEntry raw)
     = (case sortedCandidates raw of [] \<Rightarrow> 0 | e # _ \<Rightarrow> snd e)"
  unfolding normalizeScrapedEntry_def sortedCandidates_def Let_def
  by (simp_all split: list.split)

lemma set_positiveCandidates:
  "set (positiveCandidates xs) = {(k, v). (k, Some v) \<in> set xs \<and> 0 < v}"
  by (induction xs rule: positiveCandidates.induct) auto

lemma set_three_candidates:
  "set (positiveCandidates [(a, x), (b, y), (c, Some z)])
     = {(k, v). 0 < v \<and> ((k = a \<and> x = Some v) \<or> (k = b \<and> y = Some v) \<or> (k = c \<and> v = z))}"
  unfolding set_positiveCandidates by auto

lemma set_sortedCandidates: "set (sortedCandidates raw) = burnCandidateSet raw"
proof -
  have "(map_option abs (r_energyBurned raw) = Some v)
          \<longleftrightarrow> (\<exists>e. r_energyBurned raw = Some e \<and> v = \<bar>e\<bar>)" for v
    by (cases "r_energyBurned raw") auto
  then show ?thesis
    unfolding sortedCandidates_def Let_def set_arraySort set_three_candidates
      burnCandidateSet_def nse_burnCandidates
    by simp
qed

lemma sorted_sortedCandidates:
  "sorted_wrt (\<lambda>a b. snd b \<le> snd a) (sortedCandidates raw)"
  unfolding sortedCandidates_def Let_def
  by (rule sorted_arraySort) simp

text \<open>
  C5. Among the candidates of a scraped entry that are strictly positive (the magnitude of
  the scraped energyBurned, the energyBalance magnitude that survived the filter, and
  componentTotalWithBaseline), \<open>resolvedBurnedTotal\<close> is the largest and
  \<open>resolvedBurnedSource\<close> names a candidate holding that value; when there is no such
  candidate the source is \<open>null\<close> and the total is 0.
\<close>

theorem resolvedBurned_largest_positive_candidate:
  "(burnCandidateSet raw = {} \<longrightarrow>
      s_resolvedBurnedSource (normalizeScrapedEntry raw) = None
      \<and> s_resolvedBurnedTotal (normalizeScrapedEntry raw) = 0)
   \<and> (burnCandidateSet raw \<noteq> {} \<longrightarrow>
        (\<exists>k. s_resolvedBurnedSource (normalizeScrapedEntry raw) = Some k
              \<and> (k, s_resolvedBurnedTotal (normalizeScrapedEntry raw)) \<in> burnCandidateSet raw)
        \<and> (\<forall>(k, v) \<in> burnCandidateSet raw. v \<le> s_resolvedBurnedTotal (normalizeScrapedEntry raw)))"
proof (cases "sortedCandidates raw")
  case Nil
  with set_sortedCandidates[of raw] have "burnCandidateSet raw = {}" by simp
  with Nil show ?thesis by (simp add: resolved_unfold)
next
  case (Cons e es)
  have mem: "e \<in> burnCandidateSet raw"
    using set_sortedCandidates[of raw] Cons by auto
  have top: "\<forall>x \<in> set es. snd x \<le> snd e"
    using sorted_sortedCandidates[of raw] Cons by simp
  have all: "\<forall>x \<in> burnCandidateSet raw. snd x \<le> snd e"
    using top set_sortedCandidates[of raw] Cons by auto
  have src: "s_resolvedBurnedSource (normalizeScrapedEntry raw) = Some (fst e)"
    and tot: "s_resolvedBurnedTotal (normalizeScrapedEntry raw) = snd e"
    using Cons by (simp_all add: resolved_unfold)
  from mem all show ?thesis unfolding src tot by auto
qed




section \<open>The scraper's date list\<close>

lemma set_normalizeDates:
  "set (normalizeDates dates)
     = {trim s | s. JStr s \<in> set (case dates of None \<Rightarrow> [] | Some ds \<Rightarrow> ds)
                    \<and> DATE_RE_test (trim s)}"
  by (simp add: normalizeDates_def set_arraySort set_collectDates)

lemma distinct_normalizeDates: "distinct (normalizeDates dates)"
  by (simp add: normalizeDates_def distinct_arraySort distinct_collectDates)

lemma sorted_normalizeDates: "sorted_wrt (\<lambda>a b. b < a) (normalizeDates dates)"
proof -
  have "sorted_wrt (\<lambda>a b. b \<le> a) (normalizeDates dates)"
    unfolding normalizeDates_def by (rule sorted_arraySort) (rule dateComparator_key)
  then show ?thesis using distinct_normalizeDates by (rule sorted_desc_strict)
qed

lemma scrapeInSession_dates:
  "ExecuteScrape ds \<in> set (fst (scrapeInSession w nd)) \<Longrightarrow> ds = nd"
  by (auto simp: scrapeInSession_def split: if_splits sum.splits)

lemma scrape_effects_dates:
  "ExecuteScrape ds \<in> set (fst (scrapeEnergySummaryForDates w dates))
     \<Longrightarrow> ds = normalizeDates dates"
  unfolding scrapeEnergySummaryForDates_def Let_def
  by (auto split: if_splits option.splits prod.splits)
     (metis fst_conv scrapeInSession_dates)

text \<open>
  C10. \<open>scrapeEnergySummaryForDates\<close> first normalises the dates: only strings that
  match the date pattern after trimming survive, without duplicates, in strictly descending
  order; with no date left it returns the empty array and asks nothing of the credentials
  store or the browser service, and the page script only ever receives the normalised list.
\<close>

theorem normalizeDates_then_early_return:
  "set (normalizeDates dates)
     = {trim s | s. JStr s \<in> set (case dates of None \<Rightarrow> [] | Some ds \<Rightarrow> ds)
                    \<and> DATE_RE_test (trim s)}
   \<and> distinct (normalizeDates dates)
   \<and> sorted_wrt (\<lambda>a b. b < a) (normalizeDates dates)
   \<and> (normalizeDates dates = [] \<longrightarrow> scrapeEnergySummaryForDates w dates = ([], Inr []))
   \<and> (\<forall>ds. ExecuteScrape ds \<in> set (fst (scrapeEnergySummaryForDates w dates))
             \<longrightarrow> ds = normalizeDates dates)"
proof -
  have "normalizeDates dates = [] \<longrightarrow> scrapeEnergySummaryForDates w dates = ([], Inr [])"
    by (simp add: scrapeEnergySummaryForDates_def)
  with set_normalizeDates distinct_normalizeDates sorted_normalizeDates scrape_effects_dates
  show ?thesis by blast
qed

lemma js_dates:
  "js ''2024-01-05'' = [50, 48, 50, 52, 45, 48, 49, 45, 48, 53]"
  "js ''2024-01-02'' = [50, 48, 50, 52, 45, 48, 49, 45, 48, 50]"
  "js ''2024-1-05'' = [50, 48, 50, 52, 45, 49, 45, 48, 53]"
  "js '' 2024-01-05 '' = [32, 50, 48, 50, 52, 45, 48, 49, 45, 48, 53, 32]"
  by (simp_all add: js_def)

lemma normalizeDates_example:
  "normalizeDates (Some [JStr (js ''2024-01-02''), JNull, JStr (js '' 2024-01-05 ''),
                         JStr (js ''2024-1-05''), JStr (js ''2024-01-02'')])
     = [js ''2024-01-05'', js ''2024-01-02'']"
  by (simp add: normalizeDates_def js_dates trim_def isWhiteSpace_def DATE_RE_test_def isDigit_def
        arraySort_def dateComparator_def)

lemma normalizeDates_rejects:
  "normalizeDates (Some [JNull, JStr (js ''2024-1-05''), JNum (Fin 20240105)]) = []"
  by (simp add: normalizeDates_def js_dates trim_def isWhiteSpace_def DATE_RE_test_def isDigit_def
        arraySort_def)

theorem normalizeDates_then_early_return_witness:
  "normalizeDates (Some [JNull, JStr (js ''2024-1-05''), JNum (Fin 20240105)]) = []
   \<and> scrapeEnergySummaryForDates offlineWorld
        (Some [JNull, JStr (js ''2024-1-05''), JNum (Fin 20240105)]) = ([], Inr [])"
  using normalizeDates_then_early_return
          [of "Some [JNull, JStr (js ''2024-1-05''), JNum (Fin 20240105)]" offlineWorld]
        normalizeDates_rejects
  by simp

lemma mixed_candidates:
  "burnCandidateSet scrapedMixed
     = {(''energyBurned'', 500), (''componentTotalWithBaseline'', 2000)}"
  unfolding burnCandidateSet_def nse_balance nse_ctwb
  by (auto simp: scrapedMixed_def absOrZero_def)

theorem resolvedBurned_largest_positive_candidate_witness:
  "burnCandidateSet scrapedMixed \<noteq> {}
   \<and> s_resolvedBurnedSource (normalizeScrapedEntry scrapedMixed)
        = Some ''componentTotalWithBaseline''
   \<and> s_resolvedBurnedTotal (normalizeScrapedEntry scrapedMixed) = 2000"
proof -
  have ne: "burnCandidateSet scrapedMixed \<noteq> {}" by (simp add: mixed_candidates)
  from resolvedBurned_largest_positive_candidate[of scrapedMixed] ne
  obtain k where k: "s_resolvedBurnedSource (normalizeScrapedEntry scrapedMixed) = Some k"
    and mem: "(k, s_resolvedBurnedTotal (normalizeScrapedEntry scrapedMixed))
                \<in> burnCandidateSet scrapedMixed"
    and top: "\<forall>(k, v) \<in> burnCandidateSet scrapedMixed.
                v \<le> s_resolvedBurnedTotal (normalizeScrapedEntry scrapedMixed)"
    by blast
  from top have "2000 \<le> s_resolvedBurnedTotal (normalizeScrapedEntry scrapedMixed)"
    by (simp add: mixed_candidates)
  with mem have "k = ''componentTotalWithBaseline''
      \<and> s_resolvedBurnedTotal (normalizeScrapedEntry scrapedMixed) = 2000"
    by (auto simp: mixed_candidates)
  with k ne show ?thesis by simp
qed

section \<open>Text that parses as a number\<close>













lemma js_plain: "js ''1234.5'' = [49, 50, 51, 52, 46, 53]"
  by (simp add: js_def)









section \<open>The order of the reconciliation tiers\<close>

lemma reconcileDay_fields:
  "burnedSource (reconcileDay S B entry)
     = ch_burnedSource (selectBurned (getByDate S (entryDate entry)) (extractBurnedComponents entry)
         (inferBurnedCalories entry) (getByDate B (entryDate entry)))"
  "burnedCalories (reconcileDay S B entry)
     = (case ch_burned (selectBurned (getByDate S (entryDate entry)) (extractBurnedComponents entry)
         (inferBurnedCalories entry) (getByDate B (entryDate entry))) of Some b \<Rightarrow> b | None \<Rightarrow> 0)"
  "burnedRawCalories (reconcileDay S B entry)
     = (case ch_burnedRaw (selectBurned (getByDate S (entryDate entry)) (extractBurnedComponents entry)
         (inferBurnedCalories entry) (getByDate B (entryDate entry))) of Some b \<Rightarrow> b | None \<Rightarrow> 0)"
  "missingBurnComponents (reconcileDay S B entry)
     = ch_missingBurnComponents (selectBurned (getByDate S (entryDate entry)) (extractBurnedComponents entry)
         (inferBurnedCalories entry) (getByDate B (entryDate entry)))"
  "date (reconcileDay S B entry) = entryDate entry"
  "consumedCalories (reconcileDay S B entry)
     = (case parseNumber (entry ''calories'') of Some x \<Rightarrow> x | None \<Rightarrow> 0)"
  "netCalories (reconcileDay S B entry)
     = consumedCalories (reconcileDay S B entry) - burnedCalories (reconcileDay S B entry)"
  by (simp_all add: reconcileDay_def Let_def)

text \<open>The branch taken by selectBurned, one lemma per tier.\<close>

lemma select_direct:
  assumes "scraped = Some s" "s_energyBurned s = Some eb"
  shows "ch_burnedSource (selectBurned scraped bc inferred agg) = ''scrape_energy_burned_total''"
    and "ch_burned (selectBurned scraped bc inferred agg) = Some \<bar>eb\<bar>"
    and "ch_burnedRaw (selectBurned scraped bc inferred agg) = Some eb"
    and "ch_missingBurnComponents (selectBurned scraped bc inferred agg) = s_missingComponents s"
  using assms by (simp_all add: selectBurned_def Let_def)

lemma select_scrape_components:
  assumes "scraped = Some s" "s_energyBurned s = None" "0 < s_componentTotalWithBaseline s"
  shows "ch_burnedSource (selectBurned scraped bc inferred agg)
           = (if s_hasAllCoreComponents s then ''scrape_components_complete''
              else ''scrape_components_partial'')"
    and "ch_burned (selectBurned scraped bc inferred agg) = Some (s_componentTotalWithBaseline s)"
    and "ch_burnedRaw (selectBurned scraped bc inferred agg) = Some (s_componentTotalWithBaseline s)"
  using assms by (simp_all add: selectBurned_def Let_def scrapedComponentTotalOf_def)

lemma select_nutrition:
  assumes "noScrapeTier scraped" "hasAny bc"
  shows "ch_burnedSource (selectBurned scraped bc inferred agg)
           = (if hasAll bc then ''nutrition_components_complete''
              else ''nutrition_components_partial'')"
    and "ch_burned (selectBurned scraped bc inferred agg) = Some (total bc)"
    and "ch_burnedRaw (selectBurned scraped bc inferred agg) = Some (rawTotal bc)"
    and "ch_missingBurnComponents (selectBurned scraped bc inferred agg) = missingComponents bc"
  using assms
  by (cases scraped;
      simp add: selectBurned_def Let_def scrapedComponentTotalOf_def noScrapeTier_def)+

lemma select_inferred:
  assumes "noScrapeTier scraped" "\<not> hasAny bc" "inferred = Some (burned, source)"
  shows "ch_burnedSource (selectBurned scraped bc inferred agg) = source"
    and "ch_burned (selectBurned scraped bc inferred agg) = Some burned"
    and "ch_burnedRaw (selectBurned scraped bc inferred agg) = Some burned"
  using assms
  by (cases scraped;
      simp add: selectBurned_def Let_def scrapedComponentTotalOf_def noScrapeTier_def)+

lemma select_exercise:
  assumes "noScrapeTier scraped" "\<not> hasAny bc" "inferred = None" "agg = Some a"
  shows "ch_burnedSource (selectBurned scraped bc inferred agg) = ''exercise_export_abs''"
    and "ch_burned (selectBurned scraped bc inferred agg) = Some (agg_burnedCalories a)"
    and "ch_burnedRaw (selectBurned scraped bc inferred agg) = Some (agg_burnedRawCalories a)"
    and "ch_missingBurnComponents (selectBurned scraped bc inferred agg) = [''bmr'', ''tef'']"
  using assms
  by (cases scraped;
      simp add: selectBurned_def Let_def scrapedComponentTotalOf_def noScrapeTier_def)+

lemma select_none:
  assumes "noScrapeTier scraped" "\<not> hasAny bc" "inferred = None" "agg = None"
  shows "ch_burnedSource (selectBurned scraped bc inferred agg) = ''none''"
    and "ch_burned (selectBurned scraped bc inferred agg) = None"
    and "ch_burnedRaw (selectBurned scraped bc inferred agg) = None"
  using assms
  by (cases scraped;
      simp add: selectBurned_def Let_def scrapedComponentTotalOf_def noScrapeTier_def)+

lemma nse_components:
  "s_components (normalizeScrapedEntry raw)
     = \<lparr>sc_bmr = map_option abs (r_bmr raw), sc_tef = map_option abs (r_tef raw),
        sc_exercise = map_option abs (r_exercise raw),
        sc_trackerActivity = map_option abs (r_trackerActivity raw),
        sc_baseline = map_option abs (r_baseline raw)\<rparr>"
  by (simp add: normalizeScrapedEntry_def Let_def)

lemma nse_missing:
  "s_missingComponents (normalizeScrapedEntry raw)
     = map fst (filter (\<lambda>(key, value). value = None)
         [(''bmr'', r_bmr raw), (''tef'', r_tef raw), (''exercise'', r_exercise raw),
          (''trackerActivity'', r_trackerActivity raw)])"
  "s_hasAllCoreComponents (normalizeScrapedEntry raw)
     \<longleftrightarrow> s_missingComponents (normalizeScrapedEntry raw) = []"
  by (simp_all add: normalizeScrapedEntry_def Let_def)

lemma nse_hasAll:
  "s_hasAllCoreComponents (normalizeScrapedEntry raw)
     \<longleftrightarrow> allCorePresent (s_components (normalizeScrapedEntry raw))"
  unfolding nse_missing nse_components allCorePresent_def
  by (cases "r_bmr raw"; cases "r_tef raw"; cases "r_exercise raw"; cases "r_trackerActivity raw"; simp)

lemma scrapeMap_values_acc:
  "foldl (\<lambda>m entry. case s_date entry of
                          None \<Rightarrow> m
                        | Some d \<Rightarrow> if d = [] then m else m(d \<mapsto> entry)) m es k = Some s
     \<Longrightarrow> m k = Some s \<or> s \<in> set es"
proof (induction es arbitrary: m)
  case Nil
  then show ?case by simp
next
  case (Cons e es)
  from Cons.IH[OF Cons.prems[simplified]] show ?case
    by (auto split: option.splits if_splits)
qed

lemma scrapeMap_values:
  "getByDate (mapEnergyScrapeByDate es) d = Some s \<Longrightarrow> s \<in> set es"
  unfolding getByDate_def mapEnergyScrapeByDate_def
  by (auto split: option.splits jsval.splits if_splits dest: scrapeMap_values_acc)

lemma selectBurned_tierOrder:
  assumes "\<And>s. scraped = Some s \<Longrightarrow> s_hasAllCoreComponents s = allCorePresent (s_components s)"
  shows "(ch_burnedSource (selectBurned scraped bc inferred agg),
          case ch_burned (selectBurned scraped bc inferred agg) of Some b \<Rightarrow> b | None \<Rightarrow> 0)
         = firstApplicable (tierOrder scraped bc inferred agg) (''none'', 0)"
    (is "?lhs = ?rhs")
proof (cases "noScrapeTier scraped")
  case True
  then have scr: "scraped = None \<or> (\<exists>s. scraped = Some s \<and> s_energyBurned s = None
                      \<and> \<not> 0 < s_componentTotalWithBaseline s)"
    by (auto simp: noScrapeTier_def split: option.splits)
  show ?thesis
  proof (cases "hasAny bc")
    case hasAny: True
    have "?lhs = (if hasAll bc then ''nutrition_components_complete''
                  else ''nutrition_components_partial'', total bc)"
      by (simp add: select_nutrition[OF True hasAny])
    moreover have "?rhs = (if hasAll bc then ''nutrition_components_complete''
                  else ''nutrition_components_partial'', total bc)"
      using scr by (auto simp: tierOrder_def hasAny)
    ultimately show ?thesis by simp
  next
    case noAny: False
    show ?thesis
    proof (cases inferred)
      case (Some p)
      then obtain b src where p: "inferred = Some (b, src)" by (cases p) auto
      have "?lhs = (src, b)" by (simp add: select_inferred[OF True noAny p])
      moreover have "?rhs = (src, b)" using scr by (auto simp: tierOrder_def p noAny)
      ultimately show ?thesis by simp
    next
      case None
      show ?thesis
      proof (cases agg)
        case noagg: None
        have "?lhs = (''none'', 0)" by (simp add: select_none[OF True noAny None noagg])
        moreover have "?rhs = (''none'', 0)"
          using scr by (auto simp: tierOrder_def None noagg noAny)
        ultimately show ?thesis by simp
      next
        case (Some a)
        have "?lhs = (''exercise_export_abs'', agg_burnedCalories a)"
          by (simp add: select_exercise[OF True noAny None Some])
        moreover have "?rhs = (''exercise_export_abs'', agg_burnedCalories a)"
          using scr by (auto simp: tierOrder_def None Some noAny)
        ultimately show ?thesis by simp
      qed
    qed
  qed
next
  case False
  then obtain s where s: "scraped = Some s"
    and tier: "s_energyBurned s \<noteq> None \<or> 0 < s_componentTotalWithBaseline s"
    by (auto simp: noScrapeTier_def split: option.splits)
  show ?thesis
  proof (cases "s_energyBurned s")
    case (Some eb)
    have "?lhs = (''scrape_energy_burned_total'', \<bar>eb\<bar>)"
      by (simp add: select_direct[OF s Some])
    moreover have "?rhs = (''scrape_energy_burned_total'', \<bar>eb\<bar>)"
      by (simp add: tierOrder_def s Some)
    ultimately show ?thesis by simp
  next
    case None
    with tier have pos: "0 < s_componentTotalWithBaseline s" by simp
    have "?lhs = (if s_hasAllCoreComponents s then ''scrape_components_complete''
                  else ''scrape_components_partial'', s_componentTotalWithBaseline s)"
      by (simp add: select_scrape_components[OF s None pos])
    moreover have "?rhs = (if s_hasAllCoreComponents s then ''scrape_components_complete''
                  else ''scrape_components_partial'', s_componentTotalWithBaseline s)"
      using assms[OF s] by (simp add: tierOrder_def s None pos)
    ultimately show ?thesis by simp
  qed
qed

text \<open>
  C1. For a completed day, with the scraped entries normalised by the scraper, the source
  tag and the burned figure are those of the first applicable tier in the order: scraped
  direct total, scraped components complete, scraped components partial, export components
  (complete or partial), inferred export field (its own label), exercise-log aggregate,
  and \<open>none\<close> with 0 when no tier applies.
\<close>

theorem reconcile_tier_order:
  assumes "scrapedByDate = mapEnergyScrapeByDate (map normalizeScrapedEntry raws)"
  shows "(burnedSource (reconcileDay scrapedByDate burnedByDate entry),
          burnedCalories (reconcileDay scrapedByDate burnedByDate entry))
         = firstApplicable
             (tierOrder (getByDate scrapedByDate (entryDate entry))
                (extractBurnedComponents entry) (inferBurnedCalories entry)
                (getByDate burnedByDate (entryDate entry)))
             (''none'', 0)"
proof -
  have "s_hasAllCoreComponents s = allCorePresent (s_components s)"
    if "getByDate scrapedByDate (entryDate entry) = Some s" for s
  proof -
    from that assms have "s \<in> set (map normalizeScrapedEntry raws)"
      by (auto dest: scrapeMap_values)
    then obtain raw where "s = normalizeScrapedEntry raw" by auto
    then show ?thesis by (simp add: nse_hasAll)
  qed
  from selectBurned_tierOrder[OF this] show ?thesis
    by (simp add: reconcileDay_fields)
qed

lemma nse_date:
  "s_date (normalizeScrapedEntry raw)
     = (case r_date raw of Some d \<Rightarrow> if d = [] then None else Some d | None \<Rightarrow> None)"
  by (simp add: normalizeScrapedEntry_def Let_def)

lemma scrapeMap_single:
  "s_date s = Some d \<Longrightarrow> d \<noteq> [] \<Longrightarrow> getByDate (mapEnergyScrapeByDate [s]) (Some (JStr d)) = Some s"
  by (simp add: mapEnergyScrapeByDate_def getByDate_def)

lemma js_nonempty: "js (c # cs) \<noteq> []"
  by (simp add: js_def)

lemma direct_export_components:
  "hasAll (extractBurnedComponents dayDirectAndExport)"
  "hasAny (extractBurnedComponents dayDirectAndExport)"
  "total (extractBurnedComponents dayDirectAndExport) = 480"
  by (simp_all add: extractBurnedComponents_def BURN_COMPONENT_KEYS_def
        OPTIONAL_BURN_COMPONENT_KEYS_def dayDirectAndExport_def Let_def)

lemma direct_export_date:
  "entryDate dayDirectAndExport = Some (JStr (js ''2024-01-02''))"
  by (simp add: entryDate_def dayDirectAndExport_def js_def)

theorem reconcile_tier_order_witness:
  "hasAll (extractBurnedComponents dayDirectAndExport)
   \<and> total (extractBurnedComponents dayDirectAndExport) = 480
   \<and> s_energyBurned (normalizeScrapedEntry scrapedDirect500) = Some 500
   \<and> burnedSource (reconcileDay (mapEnergyScrapeByDate (map normalizeScrapedEntry [scrapedDirect500]))
        Map.empty dayDirectAndExport) = ''scrape_energy_burned_total''
   \<and> burnedCalories (reconcileDay (mapEnergyScrapeByDate (map normalizeScrapedEntry [scrapedDirect500]))
        Map.empty dayDirectAndExport) = 500"
proof -
  have eb: "s_energyBurned (normalizeScrapedEntry scrapedDirect500) = Some 500"
    by (simp add: nse_energyBurned scrapedDirect500_def)
  have look: "getByDate (mapEnergyScrapeByDate (map normalizeScrapedEntry [scrapedDirect500]))
                (entryDate dayDirectAndExport) = Some (normalizeScrapedEntry scrapedDirect500)"
    unfolding direct_export_date
    by (simp add: scrapeMap_single nse_date scrapedDirect500_def js_def)
  have "(burnedSource (reconcileDay (mapEnergyScrapeByDate (map normalizeScrapedEntry [scrapedDirect500]))
            Map.empty dayDirectAndExport),
         burnedCalories (reconcileDay (mapEnergyScrapeByDate (map normalizeScrapedEntry [scrapedDirect500]))
            Map.empty dayDirectAndExport))
        = (''scrape_energy_burned_total'', 500)"
    unfolding reconcile_tier_order[OF refl, of "[scrapedDirect500]" Map.empty dayDirectAndExport] look
    by (simp add: tierOrder_def eb)
  with eb direct_export_components show ?thesis by simp
qed

section \<open>The exercise-log fallback and the zero direct total\<close>

lemma aggregateStep_other:
  "stringDate row \<noteq> Some d \<Longrightarrow> aggregateStep m row d = m d"
  by (auto simp: aggregateStep_def Let_def split: option.splits)

lemma aggregateStep_same:
  assumes "stringDate row = Some d"
  shows "\<exists>e. aggregateStep m row d = Some e
           \<and> agg_burnedCalories e
               = (case m d of None \<Rightarrow> 0 | Some e0 \<Rightarrow> agg_burnedCalories e0) + \<bar>rowCalories row\<bar>
           \<and> agg_burnedRawCalories e
               = (case m d of None \<Rightarrow> 0 | Some e0 \<Rightarrow> agg_burnedRawCalories e0) + rowCalories row"
  using assms
  by (cases "m d") (simp_all add: aggregateStep_def Let_def rowCalories_def)

lemma rowsOfDate_Cons:
  "rowsOfDate d (row # rows)
     = (if stringDate row = Some d then row # rowsOfDate d rows else rowsOfDate d rows)"
  by (simp add: rowsOfDate_def)

lemma aggregate_fold_None:
  "foldl aggregateStep m rows d = None \<longleftrightarrow> m d = None \<and> rowsOfDate d rows = []"
proof (induction rows arbitrary: m)
  case Nil
  then show ?case by (simp add: rowsOfDate_def)
next
  case (Cons row rows)
  show ?case
  proof (cases "stringDate row = Some d")
    case False
    then show ?thesis
      by (simp add: Cons.IH aggregateStep_other[OF False] rowsOfDate_Cons)
  next
    case True
    from aggregateStep_same[OF True, of m] have "aggregateStep m row d \<noteq> None" by auto
    then show ?thesis by (simp add: Cons.IH True rowsOfDate_Cons)
  qed
qed

lemma aggregate_fold_Some:
  "foldl aggregateStep m rows d = Some e \<Longrightarrow>
     agg_burnedCalories e
       = (case m d of None \<Rightarrow> 0 | Some e0 \<Rightarrow> agg_burnedCalories e0)
         + sum_list (map (\<lambda>row. \<bar>rowCalories row\<bar>) (rowsOfDate d rows))
     \<and> agg_burnedRawCalories e
       = (case m d of None \<Rightarrow> 0 | Some e0 \<Rightarrow> agg_burnedRawCalories e0)
         + sum_list (map rowCalories (rowsOfDate d rows))"
proof (induction rows arbitrary: m)
  case Nil
  then show ?case by (simp add: rowsOfDate_def)
next
  case (Cons row rows)
  from Cons.prems have step: "foldl aggregateStep (aggregateStep m row) rows d = Some e"
    by simp
  note ih = Cons.IH[OF step]
  show ?case
  proof (cases "stringDate row = Some d")
    case False
    have same: "aggregateStep m row d = m d" by (rule aggregateStep_other[OF False])
    from ih show ?thesis unfolding same by (simp add: rowsOfDate_Cons False)
  next
    case True
    from aggregateStep_same[OF True, of m] obtain e1 where
      e1: "aggregateStep m row d = Some e1"
      and ea: "agg_burnedCalories e1
               = (case m d of None \<Rightarrow> 0 | Some e0 \<Rightarrow> agg_burnedCalories e0) + \<bar>rowCalories row\<bar>"
      and er: "agg_burnedRawCalories e1
               = (case m d of None \<Rightarrow> 0 | Some e0 \<Rightarrow> agg_burnedRawCalories e0) + rowCalories row"
      by blast
    from ih show ?thesis unfolding e1 by (simp add: ea er rowsOfDate_Cons True)
  qed
qed

lemma aggregateBurnedByDate_Some:
  assumes "aggregateBurnedByDate rows d = Some a"
  shows "agg_burnedCalories a = sum_list (map (\<lambda>row. \<bar>rowCalories row\<bar>) (rowsOfDate d rows))"
    and "agg_burnedRawCalories a = sum_list (map rowCalories (rowsOfDate d rows))"
  using aggregate_fold_Some[where m=Map.empty and rows=rows and d=d and e=a] assms
  by (simp_all add: aggregateBurnedByDate_def)

lemma aggregateBurnedByDate_sums:
  assumes "rowsOfDate d rows \<noteq> []"
  shows "\<exists>a. aggregateBurnedByDate rows d = Some a
           \<and> agg_burnedCalories a = sum_list (map (\<lambda>row. \<bar>rowCalories row\<bar>) (rowsOfDate d rows))
           \<and> agg_burnedRawCalories a = sum_list (map rowCalories (rowsOfDate d rows))"
proof -
  have "aggregateBurnedByDate rows d \<noteq> None"
    using aggregate_fold_None[where m=Map.empty and rows=rows and d=d] assms
    by (simp add: aggregateBurnedByDate_def)
  then obtain a where a: "aggregateBurnedByDate rows d = Some a" by auto
  with aggregateBurnedByDate_Some[OF a] show ?thesis by simp
qed

lemma noScrapeTier_None: "noScrapeTier None"
  by (simp add: noScrapeTier_def)

text \<open>
  C6. For a day with a date, no scraped entry, no export component and no inferred burned
  field, whose date has exercise-log rows: burnedCalories is the sum of the magnitudes of
  caloriesBurned over the rows of that date (a value that does not parse counts as 0),
  burnedRawCalories the signed sum, the tag is \<open>exercise_export_abs\<close> and the missing
  components are \<open>bmr\<close> and \<open>tef\<close>; such a day makes the route ask for the exercise
  export. Rows of -250 and -100 give 350 and -350.
\<close>

theorem exercise_fallback_sums:
  assumes "entry ''date'' = Some (JStr d)" and "d \<noteq> []"
    and "getByDate scrapedByDate (Some (JStr d)) = None"
    and "\<not> hasAny (extractBurnedComponents entry)"
    and "inferBurnedCalories entry = None"
    and "rowsOfDate d rows \<noteq> []"
  shows "burnedCalories (reconcileDay scrapedByDate (aggregateBurnedByDate rows) entry)
           = sum_list (map (\<lambda>row. \<bar>rowCalories row\<bar>) (rowsOfDate d rows))
         \<and> burnedRawCalories (reconcileDay scrapedByDate (aggregateBurnedByDate rows) entry)
           = sum_list (map rowCalories (rowsOfDate d rows))
         \<and> burnedSource (reconcileDay scrapedByDate (aggregateBurnedByDate rows) entry)
           = ''exercise_export_abs''
         \<and> missingBurnComponents (reconcileDay scrapedByDate (aggregateBurnedByDate rows) entry)
           = [''bmr'', ''tef'']
         \<and> needsExercise scrapedByDate entry"
proof -
  have date: "entryDate entry = Some (JStr d)"
    using assms(1,2) by (simp add: entryDate_def)
  from aggregateBurnedByDate_sums[OF assms(6)] obtain a where
    a: "aggregateBurnedByDate rows d = Some a"
    and aa: "agg_burnedCalories a = sum_list (map (\<lambda>row. \<bar>rowCalories row\<bar>) (rowsOfDate d rows))"
    and ar: "agg_burnedRawCalories a = sum_list (map rowCalories (rowsOfDate d rows))"
    by blast
  have agg: "getByDate (aggregateBurnedByDate rows) (Some (JStr d)) = Some a"
    using a assms(2) by (simp add: getByDate_def)
  have scr: "noScrapeTier (getByDate scrapedByDate (Some (JStr d)))"
    by (simp add: assms(3) noScrapeTier_None)
  note sel = select_exercise[OF scr assms(4) assms(5) agg]
  have need: "needsExercise scrapedByDate entry"
    using assms(1-5) by (simp add: needsExercise_def)
  show ?thesis
    unfolding reconcileDay_fields date
    by (simp add: sel aa ar need)
qed

lemma js_date_2: "js ''2024-01-02'' = [50, 48, 50, 52, 45, 48, 49, 45, 48, 50]"
  by (simp add: js_def)

lemma exerciseOnly_facts:
  "dayExerciseOnly ''date'' = Some (JStr (js ''2024-01-02''))"
  "\<not> hasAny (extractBurnedComponents dayExerciseOnly)"
  "inferBurnedCalories dayExerciseOnly = None"
  "parseNumber (dayExerciseOnly ''calories'') = Some 2000"
  by (simp_all add: dayExerciseOnly_def extractBurnedComponents_def BURN_COMPONENT_KEYS_def
        OPTIONAL_BURN_COMPONENT_KEYS_def inferBurnedCalories_def BURNED_FIELD_KEYS_def Let_def)

lemma exerciseRows_ofDate: "rowsOfDate (js ''2024-01-02'') exerciseRows = exerciseRows"
  by (simp add: rowsOfDate_def exerciseRows_def stringDate_def js_date_2)

lemma exerciseRows_calories: "map rowCalories exerciseRows = [- 250, - 100]"
  by (simp add: exerciseRows_def rowCalories_def)

theorem exercise_fallback_sums_witness:
  "burnedCalories (reconcileDay Map.empty (aggregateBurnedByDate exerciseRows) dayExerciseOnly) = 350
   \<and> burnedRawCalories (reconcileDay Map.empty (aggregateBurnedByDate exerciseRows) dayExerciseOnly)
        = - 350
   \<and> burnedSource (reconcileDay Map.empty (aggregateBurnedByDate exerciseRows) dayExerciseOnly)
        = ''exercise_export_abs''
   \<and> missingBurnComponents (reconcileDay Map.empty (aggregateBurnedByDate exerciseRows) dayExerciseOnly)
        = [''bmr'', ''tef'']"
proof -
  have ne: "js ''2024-01-02'' \<noteq> []" by (simp add: js_def)
  have none: "getByDate Map.empty (Some (JStr (js ''2024-01-02''))) = (None :: scraped_entry option)"
    by (simp add: getByDate_def)
  have rows: "rowsOfDate (js ''2024-01-02'') exerciseRows \<noteq> []"
    by (simp add: exerciseRows_ofDate) (simp add: exerciseRows_def)
  have abs: "map (\<lambda>row. \<bar>rowCalories row\<bar>) exerciseRows = [250, 100]"
    using exerciseRows_calories by (simp add: exerciseRows_def)
  from exercise_fallback_sums[OF exerciseOnly_facts(1) ne none exerciseOnly_facts(2,3) rows]
  show ?thesis
    by (simp add: exerciseRows_ofDate exerciseRows_calories abs)
qed

lemma daysWithoutBurnSourceOf_append:
  "daysWithoutBurnSourceOf (xs @ ys) = daysWithoutBurnSourceOf xs @ daysWithoutBurnSourceOf ys"
  by (simp add: daysWithoutBurnSourceOf_def)

text \<open>
  C9. When the scraped entry of a day reports an energyBurned of 0, the day is tagged
  \<open>scrape_energy_burned_total\<close> with burnedCalories 0 whatever the other sources hold;
  the tag is not \<open>none\<close>, the day adds nothing to the list of days without a burn
  source, and its netCalories equal its consumed calories.
\<close>

theorem zero_energyBurned_selects_direct_tier:
  assumes "getByDate scrapedByDate (entryDate entry) = Some (normalizeScrapedEntry raw)"
    and "r_energyBurned raw = Some 0"
  shows "burnedSource (reconcileDay scrapedByDate burnedByDate entry) = ''scrape_energy_burned_total''
         \<and> burnedCalories (reconcileDay scrapedByDate burnedByDate entry) = 0
         \<and> burnedSource (reconcileDay scrapedByDate burnedByDate entry) \<noteq> ''none''
         \<and> netCalories (reconcileDay scrapedByDate burnedByDate entry)
             = consumedCalories (reconcileDay scrapedByDate burnedByDate entry)
         \<and> daysWithoutBurnSourceOf (before @ [reconcileDay scrapedByDate burnedByDate entry] @ after)
             = daysWithoutBurnSourceOf (before @ after)"
proof -
  have eb: "s_energyBurned (normalizeScrapedEntry raw) = Some 0"
    by (simp add: nse_energyBurned assms(2))
  note sel = select_direct[OF assms(1) eb]
  have src: "burnedSource (reconcileDay scrapedByDate burnedByDate entry)
               = ''scrape_energy_burned_total''"
    by (simp add: reconcileDay_fields(1) sel)
  have cal: "burnedCalories (reconcileDay scrapedByDate burnedByDate entry) = 0"
    by (simp add: reconcileDay_fields(2) sel)
  have net: "netCalories (reconcileDay scrapedByDate burnedByDate entry)
               = consumedCalories (reconcileDay scrapedByDate burnedByDate entry)"
    by (simp add: reconcileDay_fields(7) cal)
  have single: "daysWithoutBurnSourceOf [reconcileDay scrapedByDate burnedByDate entry] = []"
    by (simp add: daysWithoutBurnSourceOf_def src)
  have "daysWithoutBurnSourceOf (before @ [reconcileDay scrapedByDate burnedByDate entry] @ after)
             = daysWithoutBurnSourceOf (before @ after)"
    using daysWithoutBurnSourceOf_append[of "[reconcileDay scrapedByDate burnedByDate entry]" after]
    by (simp add: daysWithoutBurnSourceOf_append single del: append_Cons)
  with src cal net show ?thesis by simp
qed

theorem zero_energyBurned_selects_direct_tier_witness:
  "burnedSource (reconcileDay (mapEnergyScrapeByDate [normalizeScrapedEntry scrapedZeroBurned])
      Map.empty dayExerciseOnly) = ''scrape_energy_burned_total''
   \<and> burnedCalories (reconcileDay (mapEnergyScrapeByDate [normalizeScrapedEntry scrapedZeroBurned])
      Map.empty dayExerciseOnly) = 0
   \<and> netCalories (reconcileDay (mapEnergyScrapeByDate [normalizeScrapedEntry scrapedZeroBurned])
      Map.empty dayExerciseOnly) = 2000"
proof -
  have date: "entryDate dayExerciseOnly = Some (JStr (js ''2024-01-02''))"
    by (simp add: entryDate_def exerciseOnly_facts(1) js_def)
  have look: "getByDate (mapEnergyScrapeByDate [normalizeScrapedEntry scrapedZeroBurned])
                (entryDate dayExerciseOnly) = Some (normalizeScrapedEntry scrapedZeroBurned)"
    unfolding date
    by (simp add: scrapeMap_single nse_date scrapedZeroBurned_def js_def)
  have zero: "r_energyBurned scrapedZeroBurned = Some 0"
    by (simp add: scrapedZeroBurned_def)
  have cons: "consumedCalories (reconcileDay (mapEnergyScrapeByDate [normalizeScrapedEntry scrapedZeroBurned])
      Map.empty dayExerciseOnly) = 2000"
    by (simp add: reconcileDay_fields(6) exerciseOnly_facts(4))
  from zero_energyBurned_selects_direct_tier[OF look zero, of Map.empty "[]" "[]"] cons
  show ?thesis by simp
qed

section \<open>Magnitude and raw value of the burned figure\<close>















text \<open>
  The sign the page reported for Energy Burned does not reach \<open>burnedRawCalories\<close>:
  \<open>normalizeScrapedEntry\<close> has already replaced the figure by its magnitude.
\<close>

lemma scraped_total_raw_sign_lost:
  "r_energyBurned scrapedNegativeBurned = Some (- 500)
   \<and> burnedSource (reconcileDay (mapEnergyScrapeByDate [normalizeScrapedEntry scrapedNegativeBurned])
        Map.empty dayExerciseOnly) = ''scrape_energy_burned_total''
   \<and> burnedCalories (reconcileDay (mapEnergyScrapeByDate [normalizeScrapedEntry scrapedNegativeBurned])
        Map.empty dayExerciseOnly) = 500
   \<and> burnedRawCalories (reconcileDay (mapEnergyScrapeByDate [normalizeScrapedEntry scrapedNegativeBurned])
        Map.empty dayExerciseOnly) = 500"
proof -
  have date: "entryDate dayExerciseOnly = Some (JStr (js ''2024-01-02''))"
    by (simp add: entryDate_def exerciseOnly_facts(1) js_def)
  have look: "getByDate (mapEnergyScrapeByDate [normalizeScrapedEntry scrapedNegativeBurned])
                (entryDate dayExerciseOnly) = Some (normalizeScrapedEntry scrapedNegativeBurned)"
    unfolding date
    by (simp add: scrapeMap_single nse_date scrapedNegativeBurned_def js_def)
  have eb: "s_energyBurned (normalizeScrapedEntry scrapedNegativeBurned) = Some 500"
    by (simp add: nse_energyBurned scrapedNegativeBurned_def)
  note f = select_direct[OF look eb]
  show ?thesis
    by (simp add: reconcileDay_fields f) (simp add: scrapedNegativeBurned_def)
qed

section \<open>Days without a burn source in the range\<close>

lemma withoutDate_facts:
  "dayWithoutDate ''date'' = None"
  "isCompleted dayWithoutDate"
  "\<not> hasAny (extractBurnedComponents dayWithoutDate)"
  "inferBurnedCalories dayWithoutDate = None"
  "parseNumber (dayWithoutDate ''calories'') = Some 2000"
  by (simp_all add: dayWithoutDate_def isCompleted_def js_def toLowerAscii_def
        extractBurnedComponents_def BURN_COMPONENT_KEYS_def
        OPTIONAL_BURN_COMPONENT_KEYS_def inferBurnedCalories_def BURNED_FIELD_KEYS_def Let_def)

lemma withoutDate_completed:
  "completedEntriesOf (js ''2024-01-10'') [dayWithoutDate] = [dayWithoutDate]"
  by (simp add: completedEntriesOf_def withoutDate_facts js_def)

lemma withoutDate_day:
  "date (reconcileDay S B dayWithoutDate) = None"
  "burnedSource (reconcileDay S B dayWithoutDate) = ''none''"
  "burnedCalories (reconcileDay S B dayWithoutDate) = 0"
  "burnedRawCalories (reconcileDay S B dayWithoutDate) = 0"
  "consumedCalories (reconcileDay S B dayWithoutDate) = 2000"
proof -
  have d: "entryDate dayWithoutDate = None"
    by (simp add: entryDate_def withoutDate_facts)
  have g: "getByDate S None = None" "getByDate B None = None"
    by (simp_all add: getByDate_def)
  note f = select_none[OF noScrapeTier_None withoutDate_facts(3) refl refl]
  show "date (reconcileDay S B dayWithoutDate) = None"
    "burnedSource (reconcileDay S B dayWithoutDate) = ''none''"
    "burnedCalories (reconcileDay S B dayWithoutDate) = 0"
    "burnedRawCalories (reconcileDay S B dayWithoutDate) = 0"
    "consumedCalories (reconcileDay S B dayWithoutDate) = 2000"
    by (simp_all add: reconcileDay_fields d g f withoutDate_facts)
qed

lemma withoutDate_not_listed:
  "daysWithoutBurnSourceOf [reconcileDay S B dayWithoutDate] = []"
  by (simp add: daysWithoutBurnSourceOf_def withoutDate_day)

lemma summarize_single:
  "daysUsed (summarize [d]) = 1"
  "totalConsumedCalories (summarize [d]) = consumedCalories d"
  "totalBurnedCalories (summarize [d]) = burnedCalories d"
  "totalNetCalories (summarize [d]) = consumedCalories d - burnedCalories d"
  "perDay (summarize [d]) = [d]"
  by (simp_all add: summarize_def Let_def)

text \<open>
  C2, at the failing input. A completed export record without a date and without any burn
  field reconciles to the tag \<open>none\<close>; its date is dropped from the list the 503 check
  counts, so the route answers with a summary in which the day counts with 0 burned.
\<close>

theorem undated_day_without_source_is_summed:
  "\<exists>summary. weeklyAverageDeficit world exercisesExport (js ''2024-01-10'') [dayWithoutDate]
                  = Inr summary
      \<and> daysUsed summary = 1
      \<and> map burnedSource (perDay summary) = [''none'']
      \<and> map date (perDay summary) = [None]
      \<and> totalBurnedCalories summary = 0
      \<and> totalConsumedCalories summary = 2000
      \<and> totalNetCalories summary = 2000"
proof -
  have nodate: "stringDate dayWithoutDate = None"
    by (simp add: stringDate_def withoutDate_facts)
  have "\<exists>S B. weeklyAverageDeficit world exercisesExport (js ''2024-01-10'') [dayWithoutDate]
          = Inr (summarize [reconcileDay S B dayWithoutDate])"
    unfolding weeklyAverageDeficit_def Let_def withoutDate_completed
    by (simp add: nodate withoutDate_not_listed) blast
  then obtain S B where
    "weeklyAverageDeficit world exercisesExport (js ''2024-01-10'') [dayWithoutDate]
          = Inr (summarize [reconcileDay S B dayWithoutDate])" by blast
  then show ?thesis
    by (simp add: summarize_single withoutDate_day)
qed

text \<open>What the check does catch: a day tagged \<open>none\<close> whose date is truthy is listed.\<close>

lemma dated_none_day_listed:
  "day \<in> set days \<Longrightarrow> burnedSource day = ''none'' \<Longrightarrow> date day = Some v
     \<Longrightarrow> truthy (Some v) \<Longrightarrow> v \<in> set (daysWithoutBurnSourceOf days)"
  by (auto simp: daysWithoutBurnSourceOf_def intro!: bexI[of _ day])

lemma foldl_sum: "foldl (\<lambda>sum d. sum + f d) a xs = a + sum_list (map f xs :: rat list)"
  by (induction xs arbitrary: a) auto

lemma summarize_totals:
  "totalConsumedCalories (summarize days) = sum_list (map consumedCalories days)"
  "totalBurnedCalories (summarize days) = sum_list (map burnedCalories days)"
  "totalBurnedRawCalories (summarize days) = sum_list (map burnedRawCalories days)"
  "perDay (summarize days) = days"
  by (simp_all add: summarize_def Let_def foldl_sum)

lemma route_error_lists_days:
  "weeklyAverageDeficit world exercisesExport today nutritionEntries = Inl err
     \<Longrightarrow> err_status err = 503 \<and> err_daysWithoutBurnSource err \<noteq> []"
  unfolding weeklyAverageDeficit_def Let_def
  by (auto split: if_splits)

end
